theory Spec2Isabelle
  imports Complex_Main "HOL-Library.List_Lexorder" "HOL-Library.Product_Lexorder"
    "HOL-Library.Multiset"
begin

section \<open>Univariate analysis helpers (univariate\_analysis.py)\<close>

text \<open>
  The module is glue over three libraries (pandas, matplotlib.pyplot, seaborn). The
  functions of the module are embedded call by call; each library call they make is a
  named HOL function that computes what the library documents for that call. Fractions
  are exact rationals: the only arithmetic is one division of two counts, and rounding
  it to a float changes neither which fractions are equal nor their order.
\<close>

subsection \<open>Python values\<close>

datatype error =
  KeyError | TypeError | IndexError | ValueError | AttributeError | InvalidIndexError

text \<open>A label of a column: a string, or the position pandas gives an unnamed series.\<close>

datatype label = Str string | Pos nat

text \<open>
  The numbers the summarizers produce: an integer count, a fraction (the quotient of two
  counts, kept exact), or the float NaN.
\<close>

datatype scalar = NaN | IntV int | FloatV rat

subsection \<open>pandas: DataFrame and Series\<close>

text \<open>
  A DataFrame has ordered column labels and ordered rows; each row carries its index
  label and one cell per column. A Series has an optional name, the names of its index
  levels, and its entries in order (index key, value).
\<close>

record ('k, 'c) dataframe =
  df_columns :: "label list"
  df_rows :: "('k \<times> 'c list) list"

record ('k, 'v) series =
  s_name :: "label option"
  s_levels :: "label list"
  s_items :: "('k \<times> 'v) list"

definition wf_df :: "('k, 'c) dataframe \<Rightarrow> bool" where
  "wf_df df = list_all (\<lambda>r. length (snd r) = length (df_columns df)) (df_rows df)"

definition row_count :: "('k, 'c) dataframe \<Rightarrow> nat" where
  "row_count df = length (df_rows df)"

definition col_count :: "('k, 'c) dataframe \<Rightarrow> nat" where
  "col_count df = length (df_columns df)"

text \<open>The cells of the column at position \<open>j\<close>, top to bottom.\<close>

definition column_at :: "('k, 'c) dataframe \<Rightarrow> nat \<Rightarrow> 'c list" where
  "column_at df j = map (\<lambda>r. snd r ! j) (df_rows df)"

fun index_of :: "'a list \<Rightarrow> 'a \<Rightarrow> nat option" where
  "index_of [] y = None"
| "index_of (x # xs) y = (if x = y then Some 0 else map_option Suc (index_of xs y))"

text \<open>
  \<open>df[column]\<close>: the cells of the column with that label (column labels are taken
  to be unique; the first match is used); an absent label raises.
\<close>

definition getitem :: "('k, 'c) dataframe \<Rightarrow> string \<Rightarrow> error + 'c list" where
  "getitem df column =
     (case index_of (df_columns df) (Str column) of
        None \<Rightarrow> Inl KeyError
      | Some j \<Rightarrow> Inr (column_at df j))"

subsection \<open>matplotlib: figures, axes and the pyplot state\<close>

datatype 'c artist = Histplot "'c list" nat | Boxplot "'c list"

text \<open>
  A drawing surface. A setting that was never set is \<open>None\<close> (the library default
  applies).
\<close>

record 'c axes =
  ax_artists :: "'c artist list"
  ax_labelrotation :: "int option"
  ax_title :: string
  ax_use_offset :: "bool option"
  ax_grid :: "bool option"

definition new_axes :: "'c axes" where
  "new_axes = \<lparr>ax_artists = [], ax_labelrotation = None, ax_title = [],
     ax_use_offset = None, ax_grid = None\<rparr>"

text \<open>
  A figure owns its axes, in creation order; \<open>fig_current\<close> is the position of the
  current axes (the one \<open>plt.gca()\<close> returns), which is the axes created last.
\<close>

record 'c figure =
  fig_width :: rat
  fig_height :: rat
  fig_nrows :: nat
  fig_ncols :: nat
  fig_axes :: "'c axes list"
  fig_current :: nat
  fig_tight :: bool
  fig_shown :: bool

text \<open>The state of pyplot: the open figures, the current figure first.\<close>

type_synonym 'c pyplot = "'c figure list"

text \<open>
  What \<open>plt.subplots\<close> returns beside the figure: a numpy array of Axes objects, each
  named by its position in \<open>fig_axes\<close>, or a single Axes object.
\<close>

datatype ndarray = Axes nat | Array "ndarray list"

text \<open>\<open>a[i]\<close>: an Axes object is not subscriptable; an array checks its bound.\<close>

fun subscript :: "ndarray \<Rightarrow> nat \<Rightarrow> error + ndarray" where
  "subscript (Axes a) i = Inl TypeError"
| "subscript (Array xs) i = (if i < length xs then Inr (xs ! i) else Inl IndexError)"

definition subscript2 :: "ndarray \<Rightarrow> nat \<Rightarrow> nat \<Rightarrow> error + ndarray" where
  "subscript2 ax r c =
     (case subscript ax r of Inl e \<Rightarrow> Inl e | Inr row \<Rightarrow> subscript row c)"

text \<open>The number of dimensions and the shape of the array.\<close>

fun ndim :: "ndarray \<Rightarrow> nat" where
  "ndim (Axes a) = 0"
| "ndim (Array []) = 1"
| "ndim (Array (x # xs)) = Suc (ndim x)"

fun shape :: "ndarray \<Rightarrow> nat list" where
  "shape (Axes a) = []"
| "shape (Array []) = [0]"
| "shape (Array (x # xs)) = Suc (length xs) # shape x"

text \<open>
  \<open>plt.subplots(nrows, ncols, figsize)\<close> with the default \<open>squeeze=True\<close>: a new
  figure becomes the current figure, its axes are created row by row and the last one
  created is the current axes; the array of axes is two-dimensional only when there is
  more than one row and more than one column.
\<close>

definition axes_grid :: "nat \<Rightarrow> nat \<Rightarrow> ndarray list" where
  "axes_grid nr nc = map (\<lambda>r. Array (map (\<lambda>c. Axes (r * nc + c)) [0..<nc])) [0..<nr]"

definition squeeze :: "nat \<Rightarrow> nat \<Rightarrow> ndarray" where
  "squeeze nr nc =
     (if nr = 1 \<and> nc = 1 then Axes 0
      else if nr = 1 then Array (map Axes [0..<nc])
      else if nc = 1 then Array (map Axes [0..<nr])
      else Array (axes_grid nr nc))"

definition subplots ::
  "int \<Rightarrow> int \<Rightarrow> rat \<times> rat \<Rightarrow> 'c pyplot \<Rightarrow> error + (('c figure \<times> ndarray) \<times> 'c pyplot)" where
  "subplots nrows ncols figsize plt =
     (if nrows \<le> 0 \<or> ncols \<le> 0 then Inl ValueError
      else
        let nr = nat nrows; nc = nat ncols;
            fig = \<lparr>fig_width = fst figsize, fig_height = snd figsize,
                   fig_nrows = nr, fig_ncols = nc,
                   fig_axes = replicate (nr * nc) new_axes,
                   fig_current = nr * nc - 1, fig_tight = False, fig_shown = False\<rparr>
        in Inr ((fig, squeeze nr nc), fig # plt))"

subsection \<open>\_create\_sub\_plots\<close>

definition figure_width :: int where
  "figure_width = 14"

definition figure_height :: "int \<Rightarrow> int" where
  "figure_height num_features = ((num_features div 3) + 1) * 3"

definition num_rows :: "int \<Rightarrow> int" where
  "num_rows num_features = num_features div 3 + 1"

definition num_columns :: int where
  "num_columns = 3"

definition create_sub_plots ::
  "int \<Rightarrow> 'c pyplot \<Rightarrow> error + (('c figure \<times> ndarray) \<times> 'c pyplot)" where
  "create_sub_plots num_features plt =
     subplots (num_rows num_features) num_columns
       (of_int figure_width, of_int (figure_height num_features)) plt"

subsection \<open>The library calls of the renderers\<close>

text \<open>
  An \<open>Axes a\<close> object is the axes at position \<open>a\<close> of the figure that
  \<open>plt.subplots\<close> made current. The \<open>plt.*\<close> functions act on the current figure
  and its current axes, creating them (default size 6.4 by 4.8, one axes) when there are
  none.
\<close>

definition update_axes :: "nat \<Rightarrow> ('c axes \<Rightarrow> 'c axes) \<Rightarrow> 'c pyplot \<Rightarrow> 'c pyplot" where
  "update_axes a f plt =
     (case plt of
        [] \<Rightarrow> []
      | fig # figs \<Rightarrow> fig\<lparr>fig_axes := (fig_axes fig)[a := f (fig_axes fig ! a)]\<rparr> # figs)"

definition default_figure :: "'c figure" where
  "default_figure = \<lparr>fig_width = 32 / 5, fig_height = 24 / 5, fig_nrows = 0, fig_ncols = 0,
     fig_axes = [], fig_current = 0, fig_tight = False, fig_shown = False\<rparr>"

definition gcf :: "'c pyplot \<Rightarrow> 'c pyplot" where
  "gcf plt = (case plt of [] \<Rightarrow> [default_figure] | fig # figs \<Rightarrow> plt)"

definition gca_update :: "('c axes \<Rightarrow> 'c axes) \<Rightarrow> 'c pyplot \<Rightarrow> 'c pyplot" where
  "gca_update f plt =
     (case gcf plt of
        [] \<Rightarrow> []
      | fig # figs \<Rightarrow>
          (if fig_axes fig = []
           then fig\<lparr>fig_nrows := 1, fig_ncols := 1, fig_axes := [f new_axes],
                  fig_current := 0\<rparr> # figs
           else update_axes (fig_current fig) f (fig # figs)))"

text \<open>
  \<open>sns.histplot(data, bins, ax)\<close> and \<open>sns.boxplot(data, x, ax)\<close> draw into the axes
  they are given and leave the current axes alone. \<open>boxplot\<close> looks the column up
  itself and raises ValueError for an unknown one.
\<close>

definition sns_histplot :: "'c list \<Rightarrow> nat \<Rightarrow> ndarray \<Rightarrow> 'c pyplot \<Rightarrow> error + 'c pyplot" where
  "sns_histplot data bins ax plt =
     (case ax of
        Array xs \<Rightarrow> Inl AttributeError
      | Axes a \<Rightarrow>
          Inr (update_axes a (\<lambda>x. x\<lparr>ax_artists := ax_artists x @ [Histplot data bins]\<rparr>) plt))"

definition sns_boxplot ::
  "('k, 'c) dataframe \<Rightarrow> string \<Rightarrow> ndarray \<Rightarrow> 'c pyplot \<Rightarrow> error + 'c pyplot" where
  "sns_boxplot df x ax plt =
     (case getitem df x of
        Inl e \<Rightarrow> Inl ValueError
      | Inr data \<Rightarrow>
          (case ax of
             Array xs \<Rightarrow> Inl AttributeError
           | Axes a \<Rightarrow>
               Inr (update_axes a (\<lambda>x. x\<lparr>ax_artists := ax_artists x @ [Boxplot data]\<rparr>) plt)))"

definition tick_params :: "ndarray \<Rightarrow> int \<Rightarrow> 'c pyplot \<Rightarrow> error + 'c pyplot" where
  "tick_params ax labelrotation plt =
     (case ax of
        Array xs \<Rightarrow> Inl AttributeError
      | Axes a \<Rightarrow> Inr (update_axes a (\<lambda>x. x\<lparr>ax_labelrotation := Some labelrotation\<rparr>) plt))"

definition plt_title :: "string \<Rightarrow> 'c pyplot \<Rightarrow> 'c pyplot" where
  "plt_title label = gca_update (\<lambda>x. x\<lparr>ax_title := label\<rparr>)"

definition plt_ticklabel_format :: "bool \<Rightarrow> 'c pyplot \<Rightarrow> 'c pyplot" where
  "plt_ticklabel_format useOffset = gca_update (\<lambda>x. x\<lparr>ax_use_offset := Some useOffset\<rparr>)"

definition plt_grid :: "bool \<Rightarrow> 'c pyplot \<Rightarrow> 'c pyplot" where
  "plt_grid visible = gca_update (\<lambda>x. x\<lparr>ax_grid := Some visible\<rparr>)"

definition plt_tight_layout :: "'c pyplot \<Rightarrow> 'c pyplot" where
  "plt_tight_layout plt =
     (case gcf plt of [] \<Rightarrow> [] | fig # figs \<Rightarrow> fig\<lparr>fig_tight := True\<rparr> # figs)"

definition plt_show :: "'c pyplot \<Rightarrow> 'c pyplot" where
  "plt_show plt = map (\<lambda>fig. fig\<lparr>fig_shown := True\<rparr>) plt"

subsection \<open>get\_hist and get\_box\<close>

text \<open>
  A renderer returns the exception it raised, if any, and the pyplot state it leaves
  behind. The arguments of a call are evaluated left to right, so in \<open>get_hist\<close> the
  lookup \<open>df[column]\<close> comes before the indexing of \<open>ax\<close>.
\<close>

definition hist_body ::
  "('k, 'c) dataframe \<Rightarrow> ndarray \<Rightarrow> nat \<times> string \<Rightarrow> 'c pyplot \<Rightarrow> error option \<times> 'c pyplot" where
  "hist_body df ax ic plt =
     (case ic of (index, column) \<Rightarrow>
      case getitem df column of Inl e \<Rightarrow> (Some e, plt) | Inr data \<Rightarrow>
      case subscript2 ax (index div 3) (index mod 3) of Inl e \<Rightarrow> (Some e, plt) | Inr cell \<Rightarrow>
      case sns_histplot data 5 cell plt of Inl e \<Rightarrow> (Some e, plt) | Inr plt1 \<Rightarrow>
      case subscript2 ax (index div 3) (index mod 3) of Inl e \<Rightarrow> (Some e, plt1) | Inr cell' \<Rightarrow>
      case tick_params cell' 30 plt1 of Inl e \<Rightarrow> (Some e, plt1) | Inr plt2 \<Rightarrow>
        (None, plt_tight_layout (plt_grid False (plt_ticklabel_format False
                 (plt_title column plt2)))))"

fun hist_loop ::
  "('k, 'c) dataframe \<Rightarrow> ndarray \<Rightarrow> (nat \<times> string) list \<Rightarrow> 'c pyplot
     \<Rightarrow> error option \<times> 'c pyplot" where
  "hist_loop df ax [] plt = (None, plt)"
| "hist_loop df ax (ic # rest) plt =
     (case hist_body df ax ic plt of
        (Some e, plt') \<Rightarrow> (Some e, plt')
      | (None, plt') \<Rightarrow> hist_loop df ax rest plt')"

definition get_hist ::
  "('k, 'c) dataframe \<Rightarrow> string list \<Rightarrow> 'c pyplot \<Rightarrow> error option \<times> 'c pyplot" where
  "get_hist df columns plt =
     (case create_sub_plots (int (length columns)) plt of
        Inl e \<Rightarrow> (Some e, plt)
      | Inr ((fig, ax), plt0) \<Rightarrow>
          (case hist_loop df ax (enumerate 0 columns) plt0 of
             (Some e, plt') \<Rightarrow> (Some e, plt')
           | (None, plt') \<Rightarrow> (None, plt_show plt')))"

definition box_body ::
  "('k, 'c) dataframe \<Rightarrow> ndarray \<Rightarrow> nat \<times> string \<Rightarrow> 'c pyplot \<Rightarrow> error option \<times> 'c pyplot" where
  "box_body df ax ic plt =
     (case ic of (index, column) \<Rightarrow>
      case subscript2 ax (index div 3) (index mod 3) of Inl e \<Rightarrow> (Some e, plt) | Inr cell \<Rightarrow>
      case sns_boxplot df column cell plt of Inl e \<Rightarrow> (Some e, plt) | Inr plt1 \<Rightarrow>
      case subscript2 ax (index div 3) (index mod 3) of Inl e \<Rightarrow> (Some e, plt1) | Inr cell' \<Rightarrow>
      case tick_params cell' 30 plt1 of Inl e \<Rightarrow> (Some e, plt1) | Inr plt2 \<Rightarrow>
        (None, plt_tight_layout (plt_grid False (plt_ticklabel_format False
                 (plt_title column plt2)))))"

fun box_loop ::
  "('k, 'c) dataframe \<Rightarrow> ndarray \<Rightarrow> (nat \<times> string) list \<Rightarrow> 'c pyplot
     \<Rightarrow> error option \<times> 'c pyplot" where
  "box_loop df ax [] plt = (None, plt)"
| "box_loop df ax (ic # rest) plt =
     (case box_body df ax ic plt of
        (Some e, plt') \<Rightarrow> (Some e, plt')
      | (None, plt') \<Rightarrow> box_loop df ax rest plt')"

definition get_box ::
  "('k, 'c) dataframe \<Rightarrow> string list \<Rightarrow> 'c pyplot \<Rightarrow> error option \<times> 'c pyplot" where
  "get_box df columns plt =
     (case create_sub_plots (int (length columns)) plt of
        Inl e \<Rightarrow> (Some e, plt)
      | Inr ((fig, ax), plt0) \<Rightarrow>
          (case box_loop df ax (enumerate 0 columns) plt0 of
             (Some e, plt') \<Rightarrow> (Some e, plt')
           | (None, plt') \<Rightarrow> (None, plt_show plt')))"

subsection \<open>The library calls of the summarizers\<close>

text \<open>
  A cell of the input dataset is \<open>None\<close> when the value is missing (None, NaN or NaT)
  and \<open>Some v\<close> otherwise; \<open>df.isnull()\<close> is a new frame of booleans with the same
  labels.
\<close>

definition isnull :: "('k, 'a option) dataframe \<Rightarrow> ('k, bool) dataframe" where
  "isnull df =
     \<lparr>df_columns = df_columns df,
      df_rows = map (\<lambda>r. (fst r, map (\<lambda>c. c = None) (snd r))) (df_rows df)\<rparr>"

text \<open>
  The sum of booleans counts the True values; the sum of no values is 0. The mean is
  the sum divided by the number of values, and NaN when there are none.
\<close>

definition sum_bool :: "bool list \<Rightarrow> scalar" where
  "sum_bool bs = IntV (int (length (filter (\<lambda>b. b) bs)))"

definition mean_bool :: "bool list \<Rightarrow> scalar" where
  "mean_bool bs =
     (if bs = [] then NaN
      else FloatV (of_nat (length (filter (\<lambda>b. b) bs)) / of_nat (length bs)))"

text \<open>
  \<open>df.sum()\<close> and \<open>df.mean()\<close> reduce each column (axis 0, the default) and give a
  series indexed by the column labels; with \<open>axis = 1\<close> they reduce each row and give a
  series indexed by the row labels.
\<close>

definition reduce_axis0 ::
  "(bool list \<Rightarrow> scalar) \<Rightarrow> ('k, bool) dataframe \<Rightarrow> (label, scalar) series" where
  "reduce_axis0 f df =
     \<lparr>s_name = None, s_levels = [],
      s_items = map (\<lambda>jc. (snd jc, f (column_at df (fst jc)))) (enumerate 0 (df_columns df))\<rparr>"

definition reduce_axis1 ::
  "(bool list \<Rightarrow> scalar) \<Rightarrow> ('k, bool) dataframe \<Rightarrow> ('k, scalar) series" where
  "reduce_axis1 f df =
     \<lparr>s_name = None, s_levels = [], s_items = map (\<lambda>r. (fst r, f (snd r))) (df_rows df)\<rparr>"

definition rename :: "('k, 'v) series \<Rightarrow> string \<Rightarrow> ('k, 'v) series" where
  "rename s name = s\<lparr>s_name := Some (Str name)\<rparr>"

text \<open>
  \<open>pd.concat(objs, axis = 1)\<close> of series: one column per series, labelled with the
  name of the series (unnamed series are numbered). Series with identical indexes are
  put side by side; otherwise the rows are the union of the index labels, with NaN
  where a series has no entry, which needs every index to be free of duplicates.
\<close>

fun concat_names :: "nat \<Rightarrow> ('k, 'v) series list \<Rightarrow> label list" where
  "concat_names num [] = []"
| "concat_names num (s # ss) =
     (case s_name s of
        Some name \<Rightarrow> name # concat_names num ss
      | None \<Rightarrow> Pos num # concat_names (Suc num) ss)"

definition s_index :: "('k, 'v) series \<Rightarrow> 'k list" where
  "s_index s = map fst (s_items s)"

definition concat_axis1 :: "('k, scalar) series list \<Rightarrow> error + ('k, scalar) dataframe" where
  "concat_axis1 objs =
     (case objs of
        [] \<Rightarrow> Inl ValueError
      | s # ss \<Rightarrow>
          if list_all (\<lambda>t. s_index t = s_index s) ss
          then Inr \<lparr>df_columns = concat_names 0 objs,
                    df_rows = map (\<lambda>i. (s_index s ! i, map (\<lambda>t. snd (s_items t ! i)) objs))
                                [0..<length (s_items s)]\<rparr>
          else if list_all (\<lambda>t. distinct (s_index t)) objs
          then Inr \<lparr>df_columns = concat_names 0 objs,
                    df_rows = map (\<lambda>k. (k, map (\<lambda>t. case map_of (s_items t) k of
                                                      None \<Rightarrow> NaN | Some v \<Rightarrow> v) objs))
                                (remdups (concat (map s_index objs)))\<rparr>
          else Inl InvalidIndexError)"

text \<open>
  The sort key of a number: NaN sorts after every number, integers and fractions
  compare by value. A tuple of numbers sorts lexicographically.
\<close>

fun scalar_key :: "scalar \<Rightarrow> bool \<times> rat" where
  "scalar_key NaN = (True, 0)"
| "scalar_key (IntV i) = (False, of_int i)"
| "scalar_key (FloatV r) = (False, r)"

definition tuple_key :: "scalar list \<Rightarrow> (bool \<times> rat) list" where
  "tuple_key t = map scalar_key t"

text \<open>
  \<open>df.value_counts()\<close>: the rows holding a NaN are dropped (\<open>dropna = True\<close>), the
  remaining rows are grouped by their content with the groups in key order, each group
  is counted, and the groups are put in descending order of their count. The result is
  a series whose index has one level per column of the frame, named after the column.
  (The series itself is unnamed before pandas 2.0 and named \<open>count\<close> from then on;
  nothing below depends on that name.)
\<close>

definition value_counts :: "('k, scalar) dataframe \<Rightarrow> (scalar list, scalar) series" where
  "value_counts df =
     (let kept = filter (\<lambda>t. NaN \<notin> set t) (map snd (df_rows df));
          groups = sort_key tuple_key (remdups kept);
          counts = map (\<lambda>t. (t, int (count_list kept t))) groups
      in \<lparr>s_name = None, s_levels = df_columns df,
          s_items = map (\<lambda>tc. (fst tc, IntV (snd tc))) (sort_key (\<lambda>tc. - snd tc) counts)\<rparr>)"

definition sort_index :: "(scalar list, 'v) series \<Rightarrow> (scalar list, 'v) series" where
  "sort_index s = s\<lparr>s_items := sort_key (\<lambda>tc. tuple_key (fst tc)) (s_items s)\<rparr>"

subsection \<open>summarize\_column\_nulls and summarize\_row\_nulls\<close>

definition summarize_column_nulls ::
  "('k, 'a option) dataframe \<Rightarrow> error + (label, scalar) dataframe" where
  "summarize_column_nulls df =
     concat_axis1
       [rename (reduce_axis0 sum_bool (isnull df)) ''rows_missing'',
        rename (reduce_axis0 mean_bool (isnull df)) ''percent_missing'']"

definition row_nulls :: "('k, 'a option) dataframe \<Rightarrow> error + ('k, scalar) dataframe" where
  "row_nulls df =
     concat_axis1
       [rename (reduce_axis1 sum_bool (isnull df)) ''columns_missing'',
        rename (reduce_axis1 mean_bool (isnull df)) ''percent_missing'']"

definition summarize_row_nulls ::
  "('k, 'a option) dataframe \<Rightarrow> error + (scalar list, scalar) series" where
  "summarize_row_nulls df =
     (case row_nulls df of
        Inl e \<Rightarrow> Inl e
      | Inr frame \<Rightarrow> Inr (sort_index (value_counts frame)))"

subsection \<open>The summarizers over a store of objects\<close>

text \<open>
  To speak about mutation, the pandas objects live in a store and the summarizers
  handle references. Every pandas method the summarizers call returns a new object and
  leaves its receiver alone: a call reads the object it is applied to and allocates
  its result.
\<close>

datatype ('k, 'a) pyobj =
    Frame "('k, 'a option) dataframe"
  | BoolFrame "('k, bool) dataframe"
  | ColSeries "(label, scalar) series"
  | RowSeries "('k, scalar) series"
  | ColFrame "(label, scalar) dataframe"
  | RowFrame "('k, scalar) dataframe"
  | CountSeries "(scalar list, scalar) series"

type_synonym ('k, 'a) store = "('k, 'a) pyobj list"

text \<open>A reference is a position in the store; allocation appends.\<close>

definition deref :: "('k, 'a) store \<Rightarrow> nat \<Rightarrow> ('k, 'a) pyobj option" where
  "deref h r = (if r < length h then Some (h ! r) else None)"

definition alloc :: "('k, 'a) pyobj \<Rightarrow> ('k, 'a) store \<Rightarrow> error + nat \<times> ('k, 'a) store" where
  "alloc obj h = Inr (length h, h @ [obj])"

text \<open>Sequencing of calls: an exception ends the chain.\<close>

definition then_call ::
  "error + nat \<times> ('k, 'a) store \<Rightarrow> (nat \<Rightarrow> ('k, 'a) store \<Rightarrow> error + nat \<times> ('k, 'a) store)
     \<Rightarrow> error + nat \<times> ('k, 'a) store" where
  "then_call m f = (case m of Inl e \<Rightarrow> Inl e | Inr rh \<Rightarrow> f (fst rh) (snd rh))"

definition isnull_call :: "nat \<Rightarrow> ('k, 'a) store \<Rightarrow> error + nat \<times> ('k, 'a) store" where
  "isnull_call r h =
     (case deref h r of
        Some (Frame df) \<Rightarrow> alloc (BoolFrame (isnull df)) h
      | _ \<Rightarrow> Inl AttributeError)"

definition reduce_call ::
  "(bool list \<Rightarrow> scalar) \<Rightarrow> nat \<Rightarrow> nat \<Rightarrow> ('k, 'a) store \<Rightarrow> error + nat \<times> ('k, 'a) store" where
  "reduce_call f axis r h =
     (case deref h r of
        Some (BoolFrame b) \<Rightarrow>
          (if axis = 0 then alloc (ColSeries (reduce_axis0 f b)) h
           else if axis = 1 then alloc (RowSeries (reduce_axis1 f b)) h
           else Inl ValueError)
      | _ \<Rightarrow> Inl AttributeError)"

definition rename_call :: "string \<Rightarrow> nat \<Rightarrow> ('k, 'a) store \<Rightarrow> error + nat \<times> ('k, 'a) store" where
  "rename_call name r h =
     (case deref h r of
        Some (ColSeries s) \<Rightarrow> alloc (ColSeries (rename s name)) h
      | Some (RowSeries s) \<Rightarrow> alloc (RowSeries (rename s name)) h
      | _ \<Rightarrow> Inl AttributeError)"

definition concat_call :: "nat \<Rightarrow> nat \<Rightarrow> ('k, 'a) store \<Rightarrow> error + nat \<times> ('k, 'a) store" where
  "concat_call r1 r2 h =
     (case (deref h r1, deref h r2) of
        (Some (ColSeries s), Some (ColSeries t)) \<Rightarrow>
          (case concat_axis1 [s, t] of Inl e \<Rightarrow> Inl e | Inr f \<Rightarrow> alloc (ColFrame f) h)
      | (Some (RowSeries s), Some (RowSeries t)) \<Rightarrow>
          (case concat_axis1 [s, t] of Inl e \<Rightarrow> Inl e | Inr f \<Rightarrow> alloc (RowFrame f) h)
      | _ \<Rightarrow> Inl TypeError)"

definition value_counts_call :: "nat \<Rightarrow> ('k, 'a) store \<Rightarrow> error + nat \<times> ('k, 'a) store" where
  "value_counts_call r h =
     (case deref h r of
        Some (RowFrame f) \<Rightarrow> alloc (CountSeries (value_counts f)) h
      | Some (ColFrame f) \<Rightarrow> alloc (CountSeries (value_counts f)) h
      | _ \<Rightarrow> Inl AttributeError)"

definition sort_index_call :: "nat \<Rightarrow> ('k, 'a) store \<Rightarrow> error + nat \<times> ('k, 'a) store" where
  "sort_index_call r h =
     (case deref h r of
        Some (CountSeries s) \<Rightarrow> alloc (CountSeries (sort_index s)) h
      | _ \<Rightarrow> Inl AttributeError)"

text \<open>
  The two summarizers, call by call in the order Python evaluates them: the elements of
  the list literal from left to right, each one a chain of method calls on \<open>df\<close>.
\<close>

definition summarize_column_nulls_run ::
  "nat \<Rightarrow> ('k, 'a) store \<Rightarrow> error + nat \<times> ('k, 'a) store" where
  "summarize_column_nulls_run df h =
     then_call (then_call (then_call (isnull_call df h) (reduce_call sum_bool 0))
                  (rename_call ''rows_missing''))
       (\<lambda>a h1.
          then_call (then_call (then_call (isnull_call df h1) (reduce_call mean_bool 0))
                       (rename_call ''percent_missing''))
            (\<lambda>b h2. concat_call a b h2))"

definition summarize_row_nulls_run ::
  "nat \<Rightarrow> ('k, 'a) store \<Rightarrow> error + nat \<times> ('k, 'a) store" where
  "summarize_row_nulls_run df h =
     then_call (then_call (then_call (isnull_call df h) (reduce_call sum_bool 1))
                  (rename_call ''columns_missing''))
       (\<lambda>a h1.
          then_call (then_call (then_call (isnull_call df h1) (reduce_call mean_bool 1))
                       (rename_call ''percent_missing''))
            (\<lambda>b h2. then_call (then_call (concat_call a b h2) value_counts_call)
                       sort_index_call))"

text \<open>Every object of the store \<open>h\<close> is still in \<open>h'\<close>, as it was.\<close>

definition unchanged :: "('k, 'a) store \<Rightarrow> ('k, 'a) store \<Rightarrow> bool" where
  "unchanged h h' = (take (length h) h' = h)"

subsection \<open>Auxiliary definitions for the renderers\<close>

text \<open>The grid that \<open>_create_sub_plots\<close> asks \<open>plt.subplots\<close> for.\<close>

definition grid_shape :: "int \<Rightarrow> (nat \<times> nat) option" where
  "grid_shape num_features =
     (case create_sub_plots num_features ([] :: unit pyplot) of
        Inl e \<Rightarrow> None
      | Inr ((fig, ax), plt) \<Rightarrow> Some (fig_nrows fig, fig_ncols fig))"

text \<open>The fresh figure with \<open>nr\<close> rows of three axes.\<close>

definition grid_figure :: "nat \<Rightarrow> 'c figure" where
  "grid_figure nr = \<lparr>fig_width = 14, fig_height = of_nat (nr * 3), fig_nrows = nr,
     fig_ncols = 3, fig_axes = replicate (nr * 3) new_axes, fig_current = nr * 3 - 1,
     fig_tight = False, fig_shown = False\<rparr>"

text \<open>The cells of a named column (empty when the name is unknown).\<close>

definition column_of :: "('k, 'c) dataframe \<Rightarrow> string \<Rightarrow> 'c list" where
  "column_of df c = (case getitem df c of Inl e \<Rightarrow> [] | Inr data \<Rightarrow> data)"

text \<open>
  What one pass of the loop body does to the figure: the cell it indexes gets the plot
  and the tick rotation (\<open>drawn\<close>); the current axes gets the title and has offset
  notation and grid lines switched off (\<open>decorated\<close>).
\<close>

definition drawn :: "'c artist \<Rightarrow> 'c axes \<Rightarrow> 'c axes" where
  "drawn art x = x\<lparr>ax_artists := ax_artists x @ [art], ax_labelrotation := Some 30\<rparr>"

definition decorated :: "string \<Rightarrow> 'c axes \<Rightarrow> 'c axes" where
  "decorated c x = x\<lparr>ax_title := c, ax_use_offset := Some False, ax_grid := Some False\<rparr>"

definition body_effect :: "'c artist \<Rightarrow> nat \<times> string \<Rightarrow> 'c figure \<Rightarrow> 'c figure" where
  "body_effect art ic fig =
     (let axs = (fig_axes fig)[fst ic := drawn art (fig_axes fig ! fst ic)]
      in fig\<lparr>fig_axes := axs[fig_current fig := decorated (snd ic) (axs ! fig_current fig)],
             fig_tight := True\<rparr>)"

text \<open>The figure after the loop has run over all columns.\<close>

definition rendered :: "(string \<Rightarrow> 'c artist) \<Rightarrow> string list \<Rightarrow> 'c figure" where
  "rendered art columns =
     fold (\<lambda>ic. body_effect (art (snd ic)) ic) (enumerate 0 columns)
       (grid_figure (Suc (length columns div 3)))"

subsection \<open>Example datasets\<close>

definition df_ab :: "(nat, int option) dataframe" where
  "df_ab = \<lparr>df_columns = [Str ''a'', Str ''b''],
            df_rows = [(0, [Some 1, None]), (1, [Some 2, Some 5])]\<rparr>"

definition df_abc :: "(nat, int option) dataframe" where
  "df_abc = \<lparr>df_columns = [Str ''a'', Str ''b'', Str ''c''],
             df_rows = [(0, [Some 1, None, Some 3]), (1, [Some 2, Some 5, None])]\<rparr>"

text \<open>The figures the two renderers leave for the three columns of \<open>df_abc\<close>.\<close>

definition hist_abc :: "int option figure" where
  "hist_abc = rendered (\<lambda>c. Histplot (column_of df_abc c) 5) [''a'', ''b'', ''c'']"

definition box_abc :: "int option figure" where
  "box_abc = rendered (\<lambda>c. Boxplot (column_of df_abc c)) [''a'', ''b'', ''c'']"

definition df_abc5 :: "(nat, int option) dataframe" where
  "df_abc5 = \<lparr>df_columns = [Str ''A'', Str ''B'', Str ''C''],
       df_rows = [(0, [None, Some 1, Some 1]), (1, [Some 2, Some 5, None]),
                  (2, [None, Some 1, Some 1]), (3, [Some 2, Some 5, None]),
                  (4, [Some 2, Some 5, Some 7])]\<rparr>"

definition df_four :: "(nat, int option) dataframe" where
  "df_four = \<lparr>df_columns = [Str ''x'', Str ''y''],
       df_rows = [(0, [None, Some 1]), (1, [Some 2, None]),
                  (2, [Some 1, Some 1]), (3, [Some 3, Some 4])]\<rparr>"

definition df_full :: "(nat, int option) dataframe" where
  "df_full = \<lparr>df_columns = [Str ''x'', Str ''y''],
       df_rows = [(0, [Some 1, Some 2]), (1, [Some 3, Some 4]), (2, [Some 5, Some 6])]\<rparr>"

definition df_no_rows :: "(nat, int option) dataframe" where
  "df_no_rows = \<lparr>df_columns = [Str ''A''], df_rows = []\<rparr>"

definition df_no_columns :: "(nat, int option) dataframe" where
  "df_no_columns = \<lparr>df_columns = [], df_rows = [(0, []), (1, [])]\<rparr>"

subsection \<open>Auxiliary definitions for the summarizers\<close>

text \<open>
  The number of missing values in the column at position \<open>j\<close> and in a row, and the
  quotient of two counts as pandas computes it (NaN when the divisor is 0).
\<close>

definition missing_in_column :: "('k, 'a option) dataframe \<Rightarrow> nat \<Rightarrow> nat" where
  "missing_in_column df j = length (filter (\<lambda>r. snd r ! j = None) (df_rows df))"

definition missing_in_row :: "'a option list \<Rightarrow> nat" where
  "missing_in_row cells = length (filter (\<lambda>c. c = None) cells)"

definition row_missing_counts :: "('k, 'a option) dataframe \<Rightarrow> nat list" where
  "row_missing_counts df = map (\<lambda>r. missing_in_row (snd r)) (df_rows df)"

text \<open>No cell of the dataset is missing.\<close>

definition no_missing :: "('k, 'a option) dataframe \<Rightarrow> bool" where
  "no_missing df = list_all (\<lambda>r. None \<notin> set (snd r)) (df_rows df)"

definition fraction :: "nat \<Rightarrow> nat \<Rightarrow> scalar" where
  "fraction m n = (if n = 0 then NaN else FloatV (of_nat m / of_nat n))"

text \<open>
  The pair (count, fraction) of a row with \<open>m\<close> missing values out of \<open>n\<close> cells, and the
  group of the rows with \<open>m\<close> missing values: its pair and its size.
\<close>

definition pair_of :: "nat \<Rightarrow> nat \<Rightarrow> scalar list" where
  "pair_of n m = [IntV (int m), fraction m n]"

definition group_of :: "(nat \<Rightarrow> scalar list) \<Rightarrow> nat list \<Rightarrow> nat \<Rightarrow> scalar list \<times> scalar" where
  "group_of p ms m = (p m, IntV (int (count_list ms m)))"

section \<open>Properties of the subplot grid builder\<close>

lemma squeeze_3: "squeeze nr 3 = (if nr = 1 then Array [Axes 0, Axes 1, Axes 2] else Array (axes_grid nr 3))"
  by (simp add: squeeze_def upt_rec numeral_eq_Suc)

lemma create_sub_plots_eq:
  assumes "0 \<le> n"
  shows "create_sub_plots n plt =
     Inr ((grid_figure (nat (n div 3) + 1), squeeze (nat (n div 3) + 1) 3),
          grid_figure (nat (n div 3) + 1) # plt)"
proof -
  from assms have d: "0 \<le> n div 3" by simp
  then have r: "nat (n div 3 + 1) = nat (n div 3) + 1" by simp
  have h: "(of_int ((n div 3 + 1) * 3) :: rat) = of_nat ((nat (n div 3) + 1) * 3)"
    using d by (metis r of_int_of_nat_eq of_nat_mult of_nat_numeral int_nat_eq add_nonneg_nonneg zero_le_one of_int_mult of_int_numeral)
  show ?thesis
    using d h unfolding create_sub_plots_def subplots_def num_rows_def num_columns_def figure_width_def figure_height_def grid_figure_def Let_def
    by (simp add: r)
qed

lemma ceiling_third: "\<lceil>(of_int n :: rat) / 3\<rceil> = - (- n div 3)"
  using ceiling_divide_eq_div [of n 3, where ?'a = rat] by simp

lemma rows_vs_ceiling:
  "n div 3 + 1 = (if n mod 3 = 0 then - (- n div 3) + 1 else - (- n div 3))" for n :: int
  by presburger

text \<open>
  Claim C3. For a feature count of 1 the builder returns a canvas of width 14 and height
  3, but the array of drawing surfaces it returns is one-dimensional: three surfaces in
  a row (shape \<open>[3]\<close>), not a two-dimensional 1 by 3 array. \<open>plt.subplots\<close> squeezes
  a single-row grid, while the callers index the result with two levels.
\<close>

theorem create_sub_plots_one_dimensional:
  "create_sub_plots 1 ([] :: unit pyplot) =
     Inr ((grid_figure 1, Array [Axes 0, Axes 1, Axes 2]), [grid_figure 1]) \<and>
   ndim (Array [Axes 0, Axes 1, Axes 2]) = 1 \<and> shape (Array [Axes 0, Axes 1, Axes 2]) = [3]"
  by (simp add: create_sub_plots_eq squeeze_3)

text \<open>
  Claim C4, as the code has it. For every non-negative feature count the grid has 3
  columns and \<open>floor(count/3) + 1\<close> rows; that is \<open>ceil(count/3)\<close> rows when the
  count is not a multiple of 3, and one row more than \<open>ceil(count/3)\<close> when it is.
\<close>

theorem grid_rows_floor_plus_one:
  assumes "0 \<le> n"
  shows "grid_shape n = Some (nat (n div 3 + 1), 3) \<and>
    n div 3 + 1 = (if n mod 3 = 0 then \<lceil>(of_int n :: rat) / 3\<rceil> + 1
                   else \<lceil>(of_int n :: rat) / 3\<rceil>)"
proof
  from assms have "nat (n div 3) + 1 = nat (n div 3 + 1)" by simp
  then show "grid_shape n = Some (nat (n div 3 + 1), 3)"
    using assms by (simp add: grid_shape_def create_sub_plots_eq grid_figure_def)
  show "n div 3 + 1 = (if n mod 3 = 0 then \<lceil>(of_int n :: rat) / 3\<rceil> + 1
                   else \<lceil>(of_int n :: rat) / 3\<rceil>)"
    unfolding ceiling_third by (rule rows_vs_ceiling)
qed

theorem grid_rows_floor_plus_one_witness:
  "(0 :: int) \<le> 6 \<and> grid_shape 6 = Some (3, 3) \<and> \<lceil>(6 :: rat) / 3\<rceil> = 2"
  using grid_rows_floor_plus_one [of 6] by simp

text \<open>
  Claim C4 as stated fails for a count of 3: the grid has 2 rows, and \<open>ceil(3/3) = 1\<close>.
\<close>

theorem grid_rows_not_ceiling:
  "grid_shape 3 = Some (2, 3) \<and> grid_shape 3 \<noteq> Some (nat \<lceil>(3 :: rat) / 3\<rceil>, 3)"
  by (simp add: grid_shape_def create_sub_plots_eq grid_figure_def)

section \<open>Properties of the renderers\<close>

subsection \<open>A single-row grid\<close>

lemma index_of_None: "index_of xs y = None \<longleftrightarrow> y \<notin> set xs"
  by (induction xs) auto

lemma index_of_Some: "y \<in> set xs \<Longrightarrow> \<exists>j. index_of xs y = Some j \<and> j < length xs \<and> xs ! j = y"
  by (induction xs) auto

lemma getitem_absent: "Str c \<notin> set (df_columns df) \<Longrightarrow> getitem df c = Inl KeyError"
  using index_of_None [of "df_columns df" "Str c"] by (simp add: getitem_def)

lemma getitem_present:
  "Str c \<in> set (df_columns df) \<Longrightarrow> \<exists>data. getitem df c = Inr data"
  using index_of_Some [of "Str c" "df_columns df"] by (auto simp: getitem_def)

lemma hist_body_single_row:
  "hist_body df (Array (Axes a # row)) (0, c) plt =
     (Some (if Str c \<in> set (df_columns df) then TypeError else KeyError), plt)"
proof (cases "Str c \<in> set (df_columns df)")
  case True
  then obtain data where "getitem df c = Inr data" using getitem_present by blast
  with True show ?thesis by (simp add: hist_body_def subscript2_def)
next
  case False
  then show ?thesis by (simp add: hist_body_def getitem_absent)
qed

lemma box_body_single_row:
  "box_body df (Array (Axes a # row)) (0, c) plt = (Some TypeError, plt)"
  by (simp add: box_body_def subscript2_def)

lemma single_row_create:
  assumes "length columns = 1 \<or> length columns = 2"
  shows "create_sub_plots (int (length columns)) plt =
     Inr ((grid_figure 1, Array [Axes 0, Axes 1, Axes 2]), grid_figure 1 # plt)"
proof -
  from assms have "int (length columns) div 3 = 0" by auto
  then show ?thesis by (simp add: create_sub_plots_eq squeeze_3)
qed

lemma get_hist_single_row:
  assumes "length columns = 1 \<or> length columns = 2"
  shows "get_hist df columns plt =
     (Some (if Str (hd columns) \<in> set (df_columns df) then TypeError else KeyError),
      grid_figure 1 # plt)"
proof -
  from assms obtain c cs where cs: "columns = c # cs" by (cases columns) auto
  have "enumerate 0 columns = (0, c) # enumerate 1 cs" by (simp add: cs)
  then show ?thesis
    unfolding get_hist_def single_row_create [OF assms]
    by (simp add: hist_body_single_row cs)
qed

lemma get_box_single_row:
  assumes "length columns = 1 \<or> length columns = 2"
  shows "get_box df columns plt = (Some TypeError, grid_figure 1 # plt)"
proof -
  from assms obtain c cs where cs: "columns = c # cs" by (cases columns) auto
  have "enumerate 0 columns = (0, c) # enumerate 1 cs" by (simp add: cs)
  then show ?thesis
    unfolding get_box_def single_row_create [OF assms]
    by (simp add: box_body_single_row cs)
qed

lemma blank_single_row:
  "fig_axes (grid_figure 1 :: 'c figure) = [new_axes, new_axes, new_axes]"
  by (simp add: grid_figure_def numeral_eq_Suc)

text \<open>
  Claim C10. For every dataset and every column list of length 1 or 2, \<open>get_hist\<close> and
  \<open>get_box\<close> raise before anything is drawn: the grid has a single row, the array of
  axes is one-dimensional, and the second level of \<open>ax[i // 3][i % 3]\<close> subscripts an
  Axes object (TypeError). In \<open>get_hist\<close> the lookup \<open>df[column]\<close> is evaluated
  first, so an unknown first column raises KeyError instead. The figure left behind has
  three untouched axes.
\<close>

theorem single_row_grid_raises:
  assumes "length columns = 1 \<or> length columns = 2"
  shows "get_hist df columns plt =
           (Some (if Str (hd columns) \<in> set (df_columns df) then TypeError else KeyError),
            grid_figure 1 # plt) \<and>
         get_box df columns plt = (Some TypeError, grid_figure 1 # plt) \<and>
         fig_axes (grid_figure 1 :: 'c figure) = [new_axes, new_axes, new_axes]"
  using get_hist_single_row [OF assms] get_box_single_row [OF assms] blank_single_row
  by blast

theorem single_row_grid_raises_witness:
  "(length [''a'', ''b''] = 1 \<or> length [''a'', ''b''] = 2) \<and>
   get_hist df_ab [''a'', ''b''] [] = (Some TypeError, [grid_figure 1]) \<and>
   get_box df_ab [''a'', ''b''] [] = (Some TypeError, [grid_figure 1]) \<and>
   fig_axes (grid_figure 1 :: int option figure) = [new_axes, new_axes, new_axes]"
  using single_row_grid_raises [of "[''a'', ''b'']" df_ab "[]"]
  by (simp add: df_ab_def)

text \<open>
  Claim C5 at the column list \<open>['a']\<close>: neither renderer draws column 0 into cell
  (0, 0); both raise TypeError and leave all three axes without a plot.
\<close>

theorem one_column_not_drawn:
  "get_hist df_ab [''a''] [] = (Some TypeError, [grid_figure 1]) \<and>
   get_box df_ab [''a''] [] = (Some TypeError, [grid_figure 1]) \<and>
   map ax_artists (fig_axes (grid_figure 1 :: int option figure)) = [[], [], []]"
proof -
  have "Str (hd [''a'']) \<in> set (df_columns df_ab)"
    by (simp add: df_ab_def)
  then have "get_hist df_ab [''a''] [] = (Some TypeError, [grid_figure 1])"
    using get_hist_single_row [of "[''a'']" df_ab "[]"] by simp
  moreover have "get_box df_ab [''a''] [] = (Some TypeError, [grid_figure 1])"
    using get_box_single_row [of "[''a'']" df_ab "[]"] by simp
  moreover have "map ax_artists (fig_axes (grid_figure 1 :: int option figure)) = [[], [], []]"
    unfolding blank_single_row by (simp add: new_axes_def)
  ultimately show ?thesis by (intro conjI)
qed

subsection \<open>A grid of two or more rows\<close>

lemma subscript2_grid:
  assumes "i < 3 * nr"
  shows "subscript2 (Array (axes_grid nr 3)) (i div 3) (i mod 3) = Inr (Axes i)"
proof -
  from assms have r: "i div 3 < nr" by simp
  have c: "i mod 3 < 3" by simp
  have "subscript (Array (axes_grid nr 3)) (i div 3)
          = Inr (Array (map (\<lambda>c. Axes (i div 3 * 3 + c)) [0..<3]))"
    using r by (simp add: axes_grid_def)
  moreover have "subscript (Array (map (\<lambda>c. Axes (i div 3 * 3 + c)) [0..<3])) (i mod 3)
          = Inr (Axes (i div 3 * 3 + i mod 3))"
    using c by (simp del: upt_Suc)
  ultimately show ?thesis by (simp add: subscript2_def)
qed

lemma gca_update_cons:
  "fig_axes fig \<noteq> [] \<Longrightarrow>
   gca_update f (fig # plt) =
     fig\<lparr>fig_axes := (fig_axes fig)[fig_current fig := f (fig_axes fig ! fig_current fig)]\<rparr> # plt"
  by (simp add: gca_update_def gcf_def update_axes_def)

lemma body_tail:
  assumes "fig_axes fig \<noteq> []" and "fig_current fig < length (fig_axes fig)"
  shows "plt_tight_layout (plt_grid False (plt_ticklabel_format False (plt_title c (fig # plt))))
     = fig\<lparr>fig_axes := (fig_axes fig)[fig_current fig :=
                 decorated c (fig_axes fig ! fig_current fig)], fig_tight := True\<rparr> # plt"
  using assms
  by (simp add: plt_tight_layout_def plt_grid_def plt_ticklabel_format_def plt_title_def
      gca_update_cons gcf_def decorated_def)

lemma body_head:
  "update_axes i (\<lambda>x. x\<lparr>ax_labelrotation := Some 30\<rparr>)
     (update_axes i (\<lambda>x. x\<lparr>ax_artists := ax_artists x @ [art]\<rparr>) (fig # plt))
   = fig\<lparr>fig_axes := (fig_axes fig)[i := drawn art (fig_axes fig ! i)]\<rparr> # plt"
proof (cases "i < length (fig_axes fig)")
  case True
  then show ?thesis by (simp add: update_axes_def drawn_def)
next
  case False
  then have "length (fig_axes fig) \<le> i" by simp
  then show ?thesis by (simp add: update_axes_def list_update_beyond)
qed

lemma hist_body_grid:
  assumes "getitem df c = Inr data" and "i < 3 * nr"
    and "fig_axes fig \<noteq> []" and "fig_current fig < length (fig_axes fig)"
  shows "hist_body df (Array (axes_grid nr 3)) (i, c) (fig # plt) =
           (None, body_effect (Histplot data 5) (i, c) fig # plt)"
proof -
  let ?fig1 = "fig\<lparr>fig_axes := (fig_axes fig)[i := drawn (Histplot data 5) (fig_axes fig ! i)]\<rparr>"
  have "hist_body df (Array (axes_grid nr 3)) (i, c) (fig # plt) =
     (None, plt_tight_layout (plt_grid False (plt_ticklabel_format False
                 (plt_title c (?fig1 # plt)))))"
    using assms(1) subscript2_grid [OF assms(2)]
    by (simp add: hist_body_def sns_histplot_def tick_params_def body_head)
  also have "\<dots> = (None, body_effect (Histplot data 5) (i, c) fig # plt)"
    using assms(3,4) by (simp add: body_tail body_effect_def Let_def)
  finally show ?thesis .
qed

lemma box_body_grid:
  assumes "getitem df c = Inr data" and "i < 3 * nr"
    and "fig_axes fig \<noteq> []" and "fig_current fig < length (fig_axes fig)"
  shows "box_body df (Array (axes_grid nr 3)) (i, c) (fig # plt) =
           (None, body_effect (Boxplot data) (i, c) fig # plt)"
proof -
  let ?fig1 = "fig\<lparr>fig_axes := (fig_axes fig)[i := drawn (Boxplot data) (fig_axes fig ! i)]\<rparr>"
  have "box_body df (Array (axes_grid nr 3)) (i, c) (fig # plt) =
     (None, plt_tight_layout (plt_grid False (plt_ticklabel_format False
                 (plt_title c (?fig1 # plt)))))"
    using assms(1) subscript2_grid [OF assms(2)]
    by (simp add: box_body_def sns_boxplot_def tick_params_def body_head)
  also have "\<dots> = (None, body_effect (Boxplot data) (i, c) fig # plt)"
    using assms(3,4) by (simp add: body_tail body_effect_def Let_def)
  finally show ?thesis .
qed

lemma body_effect_frame [simp]:
  "length (fig_axes (body_effect art ic fig)) = length (fig_axes fig)"
  "fig_current (body_effect art ic fig) = fig_current fig"
  by (simp_all add: body_effect_def Let_def)

lemma column_of_present:
  "Str c \<in> set (df_columns df) \<Longrightarrow> getitem df c = Inr (column_of df c)"
  using getitem_present [of c df] by (auto simp: column_of_def)

lemma hist_loop_grid:
  assumes "\<forall>ic \<in> set ics. fst ic < 3 * nr \<and> Str (snd ic) \<in> set (df_columns df)"
    and "fig_axes fig \<noteq> []" and "fig_current fig < length (fig_axes fig)"
  shows "hist_loop df (Array (axes_grid nr 3)) ics (fig # plt) =
           (None, fold (\<lambda>ic. body_effect (Histplot (column_of df (snd ic)) 5) ic) ics fig # plt)"
  using assms
proof (induction ics arbitrary: fig)
  case Nil
  then show ?case by simp
next
  case (Cons ic ics)
  obtain i c where ic: "ic = (i, c)" by (cases ic)
  from Cons.prems(1) ic have i: "i < 3 * nr" and c: "Str c \<in> set (df_columns df)" by auto
  let ?fig' = "body_effect (Histplot (column_of df c) 5) (i, c) fig"
  have step: "hist_body df (Array (axes_grid nr 3)) (i, c) (fig # plt) = (None, ?fig' # plt)"
    by (rule hist_body_grid [OF column_of_present [OF c] i Cons.prems(2,3)])
  have ne: "fig_axes ?fig' \<noteq> []"
    using Cons.prems(2) body_effect_frame(1) [of "Histplot (column_of df c) 5" "(i, c)" fig]
    by (metis length_0_conv)
  have "hist_loop df (Array (axes_grid nr 3)) ics (?fig' # plt) =
      (None, fold (\<lambda>ic. body_effect (Histplot (column_of df (snd ic)) 5) ic) ics ?fig' # plt)"
    using Cons.prems by (intro Cons.IH ne) simp_all
  then show ?case by (simp add: ic step)
qed

lemma box_loop_grid:
  assumes "\<forall>ic \<in> set ics. fst ic < 3 * nr \<and> Str (snd ic) \<in> set (df_columns df)"
    and "fig_axes fig \<noteq> []" and "fig_current fig < length (fig_axes fig)"
  shows "box_loop df (Array (axes_grid nr 3)) ics (fig # plt) =
           (None, fold (\<lambda>ic. body_effect (Boxplot (column_of df (snd ic))) ic) ics fig # plt)"
  using assms
proof (induction ics arbitrary: fig)
  case Nil
  then show ?case by simp
next
  case (Cons ic ics)
  obtain i c where ic: "ic = (i, c)" by (cases ic)
  from Cons.prems(1) ic have i: "i < 3 * nr" and c: "Str c \<in> set (df_columns df)" by auto
  let ?fig' = "body_effect (Boxplot (column_of df c)) (i, c) fig"
  have step: "box_body df (Array (axes_grid nr 3)) (i, c) (fig # plt) = (None, ?fig' # plt)"
    by (rule box_body_grid [OF column_of_present [OF c] i Cons.prems(2,3)])
  have ne: "fig_axes ?fig' \<noteq> []"
    using Cons.prems(2) body_effect_frame(1) [of "Boxplot (column_of df c)" "(i, c)" fig]
    by (metis length_0_conv)
  have "box_loop df (Array (axes_grid nr 3)) ics (?fig' # plt) =
      (None, fold (\<lambda>ic. body_effect (Boxplot (column_of df (snd ic))) ic) ics ?fig' # plt)"
    using Cons.prems by (intro Cons.IH ne) simp_all
  then show ?case by (simp add: ic step)
qed

lemma decorated_twice [simp]: "decorated c (decorated c' x) = decorated c x"
  by (simp add: decorated_def)

lemma body_effect_axes:
  assumes "k < m" and "fig_current fig = m" and "length (fig_axes fig) = Suc m"
  shows "fig_axes (body_effect a (k, c) fig) =
           (fig_axes fig)[k := drawn a (fig_axes fig ! k), m := decorated c (fig_axes fig ! m)]"
  using assms by (simp add: body_effect_def Let_def)

lemma fold_effect_nth:
  assumes "k + length cs \<le> m" and "fig_current fig = m"
    and "length (fig_axes fig) = Suc m" and "j \<le> m"
  shows "fig_axes (fold (\<lambda>ic. body_effect (art (snd ic)) ic) (enumerate k cs) fig) ! j =
     (if k \<le> j \<and> j < k + length cs then drawn (art (cs ! (j - k))) (fig_axes fig ! j)
      else if j = m \<and> cs \<noteq> [] then decorated (last cs) (fig_axes fig ! m)
      else fig_axes fig ! j)"
  using assms
proof (induction cs arbitrary: k fig)
  case Nil
  then show ?case by auto
next
  case (Cons c cs)
  let ?fig' = "body_effect (art c) (k, c) fig"
  from Cons.prems have km: "k < m" by simp
  have ax': "fig_axes ?fig' =
      (fig_axes fig)[k := drawn (art c) (fig_axes fig ! k), m := decorated c (fig_axes fig ! m)]"
    by (rule body_effect_axes [OF km Cons.prems(2,3)])
  have IH: "fig_axes (fold (\<lambda>ic. body_effect (art (snd ic)) ic) (enumerate (Suc k) cs) ?fig') ! j =
     (if Suc k \<le> j \<and> j < Suc k + length cs then drawn (art (cs ! (j - Suc k))) (fig_axes ?fig' ! j)
      else if j = m \<and> cs \<noteq> [] then decorated (last cs) (fig_axes ?fig' ! m)
      else fig_axes ?fig' ! j)"
    using Cons.prems by (intro Cons.IH) simp_all
  have nth': "fig_axes ?fig' ! j =
     (if j = m then decorated c (fig_axes fig ! m)
      else if j = k then drawn (art c) (fig_axes fig ! k) else fig_axes fig ! j)"
    using Cons.prems km unfolding ax' by (simp add: nth_list_update)
  have step: "fold (\<lambda>ic. body_effect (art (snd ic)) ic) (enumerate k (c # cs)) fig =
      fold (\<lambda>ic. body_effect (art (snd ic)) ic) (enumerate (Suc k) cs) ?fig'"
    by simp
  have nthm: "fig_axes ?fig' ! m = decorated c (fig_axes fig ! m)"
    using Cons.prems unfolding ax' by simp
  show ?case
  proof (cases "j = k")
    case True
    then have "\<not> (Suc k \<le> j \<and> j < Suc k + length cs)" by simp
    then have "fig_axes (fold (\<lambda>ic. body_effect (art (snd ic)) ic)
                   (enumerate k (c # cs)) fig) ! j =
          (if j = m \<and> cs \<noteq> [] then decorated (last cs) (fig_axes ?fig' ! m)
           else fig_axes ?fig' ! j)"
      by (simp only: step IH if_False)
    with True km nth' show ?thesis by simp
  next
    case False
    note jk = this
    show ?thesis
    proof (cases "Suc k \<le> j \<and> j < Suc k + length cs")
      case True
      then have "j \<noteq> m" using Cons.prems(1) by simp
      moreover from True have "(c # cs) ! (j - k) = cs ! (j - Suc k)"
        by (simp add: nth_Cons')
      ultimately show ?thesis using True jk nth' by (simp only: step IH) simp
    next
      case False
      then have out: "\<not> (k \<le> j \<and> j < k + length (c # cs))" using jk by auto
      have res: "fig_axes (fold (\<lambda>ic. body_effect (art (snd ic)) ic)
                   (enumerate k (c # cs)) fig) ! j =
          (if j = m \<and> cs \<noteq> [] then decorated (last cs) (fig_axes ?fig' ! m)
           else fig_axes ?fig' ! j)"
        by (simp only: step IH if_not_P [OF False] if_False)
      show ?thesis
      proof (cases "j = m")
        case True
        show ?thesis unfolding res using True out nthm by (cases "cs = []") auto
      next
        case False
        then show ?thesis unfolding res if_not_P [OF out] using jk nth' by simp
      qed
    qed
  qed
qed

lemma fold_effect_frame:
  "length (fig_axes (fold (\<lambda>ic. body_effect (art (snd ic)) ic) ics fig)) = length (fig_axes fig)"
  "fig_current (fold (\<lambda>ic. body_effect (art (snd ic)) ic) ics fig) = fig_current fig"
  "fig_width (fold (\<lambda>ic. body_effect (art (snd ic)) ic) ics fig) = fig_width fig"
  "fig_height (fold (\<lambda>ic. body_effect (art (snd ic)) ic) ics fig) = fig_height fig"
  by (induction ics arbitrary: fig) (simp_all add: body_effect_def Let_def)

lemma multi_row_create:
  assumes "3 \<le> length columns"
  shows "create_sub_plots (int (length columns)) plt =
     Inr ((grid_figure (Suc (length columns div 3)),
           Array (axes_grid (Suc (length columns div 3)) 3)),
          grid_figure (Suc (length columns div 3)) # plt)"
proof -
  have n: "nat (int (length columns) div 3) = length columns div 3"
    by (simp add: nat_div_distrib)
  from assms have "Suc (length columns div 3) \<noteq> 1" by simp
  then show ?thesis by (simp add: create_sub_plots_eq squeeze_3 n)
qed

lemma enumerate_in_grid:
  assumes "\<forall>c \<in> set columns. Str c \<in> set (df_columns df)"
  shows "\<forall>ic \<in> set (enumerate 0 columns).
           fst ic < 3 * (Suc (length columns div 3)) \<and> Str (snd ic) \<in> set (df_columns df)"
proof
  fix ic assume "ic \<in> set (enumerate 0 columns)"
  then have "fst ic < length columns" and "snd ic \<in> set columns"
    using nth_mem [of "fst ic" columns] by (auto simp: in_set_enumerate_eq)
  moreover have "length columns < 3 * (Suc (length columns div 3))" by presburger
  ultimately show "fst ic < 3 * (Suc (length columns div 3)) \<and> Str (snd ic) \<in> set (df_columns df)"
    using assms by auto
qed

lemma grid_figure_frame:
  "fig_axes (grid_figure (Suc r) :: 'c figure) \<noteq> []"
  "fig_current (grid_figure (Suc r) :: 'c figure) < length (fig_axes (grid_figure (Suc r) :: 'c figure))"
  "fig_current (grid_figure (Suc r) :: 'c figure) = 3 * r + 2"
  "length (fig_axes (grid_figure (Suc r) :: 'c figure)) = Suc (3 * r + 2)"
  by (simp_all add: grid_figure_def)

text \<open>
  With at least three columns, all of them in the dataset, the renderers return
  normally; cell \<open>i\<close> holds the plot of column \<open>i\<close> and the tick rotation, and the
  last cell of the grid, which is the current axes, holds the title of the last column.
\<close>

lemma get_hist_grid:
  assumes "3 \<le> length columns" and "\<forall>c \<in> set columns. Str c \<in> set (df_columns df)"
  shows "get_hist df columns plt =
     (None, plt_show (rendered (\<lambda>c. Histplot (column_of df c) 5) columns # plt))"
  unfolding get_hist_def multi_row_create [OF assms(1)] rendered_def
  using hist_loop_grid [OF enumerate_in_grid [OF assms(2)] grid_figure_frame(1,2)]
  by simp

lemma get_box_grid:
  assumes "3 \<le> length columns" and "\<forall>c \<in> set columns. Str c \<in> set (df_columns df)"
  shows "get_box df columns plt =
     (None, plt_show (rendered (\<lambda>c. Boxplot (column_of df c)) columns # plt))"
  unfolding get_box_def multi_row_create [OF assms(1)] rendered_def
  using box_loop_grid [OF enumerate_in_grid [OF assms(2)] grid_figure_frame(1,2)]
  by simp

lemma rendered_cells:
  fixes art :: "string \<Rightarrow> 'c artist"
  assumes "fig = rendered art columns" and "columns \<noteq> []"
  shows "\<forall>i < length columns. fig_axes fig ! i = drawn (art (columns ! i)) new_axes"
    and "fig_axes fig ! (3 * (length columns div 3) + 2) = decorated (last columns) new_axes"
    and "length (fig_axes fig) = 3 * (length columns div 3) + 3"
proof -
  let ?r = "length columns div 3"
  let ?m = "3 * ?r + 2"
  let ?g = "grid_figure (Suc ?r) :: 'c figure"
  have le: "0 + length columns \<le> ?m" by presburger
  have nth_new: "fig_axes ?g ! j = new_axes" if "j \<le> ?m" for j
    using that by (simp add: grid_figure_def)
  have all: "fig_axes fig ! j =
     (if 0 \<le> j \<and> j < 0 + length columns then drawn (art (columns ! (j - 0))) (fig_axes ?g ! j)
      else if j = ?m \<and> columns \<noteq> [] then decorated (last columns) (fig_axes ?g ! ?m)
      else fig_axes ?g ! j)" if "j \<le> ?m" for j
    unfolding assms(1) rendered_def
    by (rule fold_effect_nth [OF le grid_figure_frame(3) grid_figure_frame(4) that])
  show "\<forall>i < length columns. fig_axes fig ! i = drawn (art (columns ! i)) new_axes"
  proof (intro allI impI)
    fix i assume i: "i < length columns"
    then have "i \<le> ?m" using le by simp
    from all [OF this] nth_new [OF this] i show "fig_axes fig ! i = drawn (art (columns ! i)) new_axes"
      by simp
  qed
  have "\<not> ?m < length columns" using le by simp
  with all [of ?m] nth_new [of ?m] assms(2)
  show "fig_axes fig ! ?m = decorated (last columns) new_axes" by simp
  show "length (fig_axes fig) = 3 * ?r + 3"
    unfolding assms(1) rendered_def by (simp add: fold_effect_frame grid_figure_def)
qed

lemma rendered_abc:
  fixes art :: "string \<Rightarrow> 'c artist"
  shows "map (\<lambda>i. fig_axes (rendered art [''a'', ''b'', ''c'']) ! i) [0, 1, 2, 5] =
     [drawn (art ''a'') new_axes, drawn (art ''b'') new_axes, drawn (art ''c'') new_axes,
      decorated ''c'' new_axes]"
proof -
  let ?fig = "rendered art [''a'', ''b'', ''c'']"
  have ne: "[''a'', ''b'', ''c''] \<noteq> []" by simp
  have cells: "\<forall>i < 3. fig_axes ?fig ! i = drawn (art ([''a'', ''b'', ''c''] ! i)) new_axes"
    using rendered_cells(1) [OF refl ne, of art] by simp
  have "fig_axes ?fig ! 0 = drawn (art ''a'') new_axes"
    using cells by simp
  moreover have "fig_axes ?fig ! 1 = drawn (art ''b'') new_axes"
    using cells [rule_format, of 1] by simp
  moreover have "fig_axes ?fig ! 2 = drawn (art ''c'') new_axes"
    using cells [rule_format, of 2] by simp
  moreover have "fig_axes ?fig ! 5 = decorated ''c'' new_axes"
    using rendered_cells(2) [OF refl ne, of art] by simp
  ultimately show ?thesis by simp
qed

lemma columns_abc:
  "column_of df_abc ''a'' = [Some 1, Some 2]"
  "column_of df_abc ''b'' = [None, Some 5]"
  "column_of df_abc ''c'' = [Some 3, None]"
  by (simp_all add: column_of_def getitem_def df_abc_def column_at_def)

text \<open>
  Claim C6 at the column list \<open>['a', 'b', 'c']\<close>: both renderers return normally. The
  cells 0, 1, 2 hold the three plots and have their tick labels rotated by 30 degrees,
  but they keep an empty title and their offset notation and grid lines are never set.
  The title of the last column and the two switches are on cell 5 (row 1, column 2),
  the current axes, which holds no plot.
\<close>

theorem title_on_last_cell:
  "get_hist df_abc [''a'', ''b'', ''c''] [] = (None, [hist_abc\<lparr>fig_shown := True\<rparr>]) \<and>
   get_box df_abc [''a'', ''b'', ''c''] [] = (None, [box_abc\<lparr>fig_shown := True\<rparr>]) \<and>
   map (\<lambda>i. fig_axes hist_abc ! i) [0, 1, 2, 5] =
     [\<lparr>ax_artists = [Histplot [Some 1, Some 2] 5], ax_labelrotation = Some 30,
       ax_title = [], ax_use_offset = None, ax_grid = None\<rparr>,
      \<lparr>ax_artists = [Histplot [None, Some 5] 5], ax_labelrotation = Some 30,
       ax_title = [], ax_use_offset = None, ax_grid = None\<rparr>,
      \<lparr>ax_artists = [Histplot [Some 3, None] 5], ax_labelrotation = Some 30,
       ax_title = [], ax_use_offset = None, ax_grid = None\<rparr>,
      \<lparr>ax_artists = [], ax_labelrotation = None,
       ax_title = ''c'', ax_use_offset = Some False, ax_grid = Some False\<rparr>] \<and>
   map (\<lambda>i. fig_axes box_abc ! i) [0, 1, 2, 5] =
     [\<lparr>ax_artists = [Boxplot [Some 1, Some 2]], ax_labelrotation = Some 30,
       ax_title = [], ax_use_offset = None, ax_grid = None\<rparr>,
      \<lparr>ax_artists = [Boxplot [None, Some 5]], ax_labelrotation = Some 30,
       ax_title = [], ax_use_offset = None, ax_grid = None\<rparr>,
      \<lparr>ax_artists = [Boxplot [Some 3, None]], ax_labelrotation = Some 30,
       ax_title = [], ax_use_offset = None, ax_grid = None\<rparr>,
      \<lparr>ax_artists = [], ax_labelrotation = None,
       ax_title = ''c'', ax_use_offset = Some False, ax_grid = Some False\<rparr>]"
proof -
  have present: "\<forall>c \<in> set [''a'', ''b'', ''c'']. Str c \<in> set (df_columns df_abc)"
    by (simp add: df_abc_def)
  have three: "3 \<le> length [''a'', ''b'', ''c'']" by simp
  have "get_hist df_abc [''a'', ''b'', ''c''] [] = (None, [hist_abc\<lparr>fig_shown := True\<rparr>])"
    unfolding get_hist_grid [OF three present] hist_abc_def by (simp add: plt_show_def)
  moreover have "get_box df_abc [''a'', ''b'', ''c''] [] = (None, [box_abc\<lparr>fig_shown := True\<rparr>])"
    unfolding get_box_grid [OF three present] box_abc_def by (simp add: plt_show_def)
  moreover have "map (\<lambda>i. fig_axes hist_abc ! i) [0, 1, 2, 5] =
     [\<lparr>ax_artists = [Histplot [Some 1, Some 2] 5], ax_labelrotation = Some 30,
       ax_title = [], ax_use_offset = None, ax_grid = None\<rparr>,
      \<lparr>ax_artists = [Histplot [None, Some 5] 5], ax_labelrotation = Some 30,
       ax_title = [], ax_use_offset = None, ax_grid = None\<rparr>,
      \<lparr>ax_artists = [Histplot [Some 3, None] 5], ax_labelrotation = Some 30,
       ax_title = [], ax_use_offset = None, ax_grid = None\<rparr>,
      \<lparr>ax_artists = [], ax_labelrotation = None,
       ax_title = ''c'', ax_use_offset = Some False, ax_grid = Some False\<rparr>]"
    unfolding hist_abc_def rendered_abc
    by (simp add: columns_abc drawn_def decorated_def new_axes_def)
  moreover have "map (\<lambda>i. fig_axes box_abc ! i) [0, 1, 2, 5] =
     [\<lparr>ax_artists = [Boxplot [Some 1, Some 2]], ax_labelrotation = Some 30,
       ax_title = [], ax_use_offset = None, ax_grid = None\<rparr>,
      \<lparr>ax_artists = [Boxplot [None, Some 5]], ax_labelrotation = Some 30,
       ax_title = [], ax_use_offset = None, ax_grid = None\<rparr>,
      \<lparr>ax_artists = [Boxplot [Some 3, None]], ax_labelrotation = Some 30,
       ax_title = [], ax_use_offset = None, ax_grid = None\<rparr>,
      \<lparr>ax_artists = [], ax_labelrotation = None,
       ax_title = ''c'', ax_use_offset = Some False, ax_grid = Some False\<rparr>]"
    unfolding box_abc_def rendered_abc
    by (simp add: columns_abc drawn_def decorated_def new_axes_def)
  ultimately show ?thesis by (intro conjI)
qed

section \<open>Properties of the summarizers\<close>

subsection \<open>The column summary\<close>

lemma s_index_reduce_axis0 [simp]:
  "s_index (reduce_axis0 f df) = df_columns df"
  by (simp add: s_index_def reduce_axis0_def comp_def enumerate_eq_zip)

lemma s_index_reduce_axis1 [simp]:
  "s_index (reduce_axis1 f df) = map fst (df_rows df)"
  by (simp add: s_index_def reduce_axis1_def comp_def)

lemma rename_simps [simp]:
  "s_items (rename s a) = s_items s"
  "s_name (rename s a) = Some (Str a)"
  "s_index (rename s a) = s_index s"
  by (simp_all add: rename_def s_index_def)

lemma s_index_nth: "i < length (s_items s) \<Longrightarrow> s_index s ! i = fst (s_items s ! i)"
  by (simp add: s_index_def)

lemma concat_axis1_pair:
  assumes "s_index t = s_index s"
  shows "concat_axis1 [rename s a, rename t b] =
     Inr \<lparr>df_columns = [Str a, Str b],
          df_rows = map (\<lambda>i. (fst (s_items s ! i), [snd (s_items s ! i), snd (s_items t ! i)]))
                      [0..<length (s_items s)]\<rparr>"
  by (simp add: concat_axis1_def assms s_index_nth cong: map_cong)

lemma concat_reduce_axis0:
  "concat_axis1 [rename (reduce_axis0 f df) a, rename (reduce_axis0 g df) b] =
     Inr \<lparr>df_columns = [Str a, Str b],
          df_rows = map (\<lambda>j. (df_columns df ! j, [f (column_at df j), g (column_at df j)]))
                      [0..<length (df_columns df)]\<rparr>"
proof -
  have "s_index (reduce_axis0 g df) = s_index (reduce_axis0 f df)" by simp
  from concat_axis1_pair [OF this] show ?thesis
    by (simp add: reduce_axis0_def nth_enumerate_eq cong: map_cong)
qed

lemma column_at_isnull:
  assumes "wf_df df" and "j < length (df_columns df)"
  shows "column_at (isnull df) j = map (\<lambda>r. snd r ! j = None) (df_rows df)"
  using assms by (auto simp: column_at_def isnull_def wf_df_def list_all_iff)

lemma sum_bool_column:
  assumes "wf_df df" and "j < length (df_columns df)"
  shows "sum_bool (column_at (isnull df) j) = IntV (int (missing_in_column df j))"
  unfolding column_at_isnull [OF assms]
  by (simp add: sum_bool_def missing_in_column_def filter_map comp_def)

lemma mean_bool_column:
  assumes "wf_df df" and "j < length (df_columns df)"
  shows "mean_bool (column_at (isnull df) j) = fraction (missing_in_column df j) (row_count df)"
  unfolding column_at_isnull [OF assms]
  by (simp add: mean_bool_def missing_in_column_def filter_map comp_def fraction_def row_count_def)

lemma wf_df_abc5: "wf_df df_abc5"
  by (simp add: wf_df_def df_abc5_def)

text \<open>
  Claim C1. For every dataset (each row holding one cell per column) the column
  summary has the columns \<open>rows_missing\<close> and \<open>percent_missing\<close> and exactly one row
  per input column, in the order of the input columns and labelled by them; row \<open>j\<close>
  holds the number of missing values of column \<open>j\<close> and that number divided by the
  number of rows of the dataset (the float division of pandas: NaN for a dataset
  without rows).
\<close>

theorem column_summary_per_column:
  assumes "wf_df df"
  shows "summarize_column_nulls df =
     Inr \<lparr>df_columns = [Str ''rows_missing'', Str ''percent_missing''],
          df_rows = map (\<lambda>j. (df_columns df ! j,
                                [IntV (int (missing_in_column df j)),
                                 fraction (missing_in_column df j) (row_count df)]))
                      [0..<col_count df]\<rparr>"
proof -
  have cols: "df_columns (isnull df) = df_columns df" by (simp add: isnull_def)
  show ?thesis
    unfolding summarize_column_nulls_def concat_reduce_axis0 cols col_count_def
    by (simp add: sum_bool_column [OF assms] mean_bool_column [OF assms] cong: map_cong)
qed

text \<open>The example of the claim: column A with 2 missing values out of 5 rows.\<close>

theorem column_summary_per_column_witness:
  "wf_df df_abc5 \<and>
   summarize_column_nulls df_abc5 =
     Inr \<lparr>df_columns = [Str ''rows_missing'', Str ''percent_missing''],
          df_rows = [(Str ''A'', [IntV 2, FloatV (2 / 5)]),
                     (Str ''B'', [IntV 0, FloatV 0]),
                     (Str ''C'', [IntV 2, FloatV (2 / 5)])]\<rparr>"
proof -
  have c: "col_count df_abc5 = 3" "row_count df_abc5 = 5"
    by (simp_all add: col_count_def row_count_def df_abc5_def)
  have m: "missing_in_column df_abc5 0 = 2" "missing_in_column df_abc5 (Suc 0) = 0"
    "missing_in_column df_abc5 2 = 2"
    by (simp_all add: missing_in_column_def df_abc5_def)
  have u: "[0..<3] = [0, 1, 2]" by (simp add: upt_rec numeral_eq_Suc)
  have n: "df_columns df_abc5 ! 0 = Str ''A''" "df_columns df_abc5 ! Suc 0 = Str ''B''"
    "df_columns df_abc5 ! 2 = Str ''C''"
    by (simp_all add: df_abc5_def)
  show ?thesis
    using column_summary_per_column [OF wf_df_abc5] wf_df_abc5
    by (simp add: c m u n fraction_def)
qed

subsection \<open>The row summary\<close>

lemma sum_bool_isnull: "sum_bool (map (\<lambda>c. c = None) cells) = IntV (int (missing_in_row cells))"
  by (simp add: sum_bool_def missing_in_row_def filter_map comp_def)

lemma mean_bool_isnull:
  "mean_bool (map (\<lambda>c. c = None) cells) = fraction (missing_in_row cells) (length cells)"
  by (simp add: mean_bool_def missing_in_row_def filter_map comp_def fraction_def)

lemma map_upt_nth: "map (\<lambda>i. f (xs ! i)) [0..<length xs] = map f xs"
proof -
  have "map (\<lambda>i. f (xs ! i)) [0..<length xs] = map f (map ((!) xs) [0..<length xs])"
    by (simp only: map_map comp_def)
  then show ?thesis by (simp only: map_nth)
qed

lemma row_nulls_eq:
  "row_nulls df =
     Inr \<lparr>df_columns = [Str ''columns_missing'', Str ''percent_missing''],
          df_rows = map (\<lambda>r. (fst r, pair_of (length (snd r)) (missing_in_row (snd r))))
                      (df_rows df)\<rparr>"
proof -
  let ?s = "reduce_axis1 sum_bool (isnull df)" and ?t = "reduce_axis1 mean_bool (isnull df)"
  let ?g = "\<lambda>r. (fst r, pair_of (length (snd r)) (missing_in_row (snd r)))"
  have len: "length (s_items ?s) = length (df_rows df)"
    by (simp add: reduce_axis1_def isnull_def)
  have row: "(fst (s_items ?s ! i), [snd (s_items ?s ! i), snd (s_items ?t ! i)]) = ?g (df_rows df ! i)"
    if "i < length (df_rows df)" for i
    using that
    by (simp add: reduce_axis1_def isnull_def sum_bool_isnull mean_bool_isnull pair_of_def)
  have "s_index ?t = s_index ?s" by simp
  from concat_axis1_pair [OF this]
  have "row_nulls df =
     Inr \<lparr>df_columns = [Str ''columns_missing'', Str ''percent_missing''],
          df_rows = map (\<lambda>i. ?g (df_rows df ! i)) [0..<length (df_rows df)]\<rparr>"
    unfolding row_nulls_def len by (simp add: row cong: map_cong)
  also have "map (\<lambda>i. ?g (df_rows df ! i)) [0..<length (df_rows df)] = map ?g (df_rows df)"
    by (rule map_upt_nth)
  finally show ?thesis .
qed

lemma sort_key_unique:
  assumes "mset ys = mset xs" and "sorted (map f ys)" and "inj_on f (set xs)"
  shows "sort_key f xs = ys"
proof (rule properties_for_sort_key [OF assms(1) _ assms(2)])
  fix k assume "k \<in> set ys"
  then have k: "k \<in> set xs" using assms(1) by (metis mset_eq_setD)
  have sets: "set ys = set xs" using assms(1) by (rule mset_eq_setD)
  have "filter (\<lambda>x. f k = f x) ys = filter (HOL.eq k) ys"
    using assms(3) k sets by (intro inj_on_filter_key_eq) (simp add: insert_absorb)
  also have "\<dots> = replicate (count (mset ys) k) k"
    by (simp add: replicate_count_mset_eq_filter_eq)
  also have "\<dots> = filter (HOL.eq k) xs"
    by (simp add: replicate_count_mset_eq_filter_eq assms(1))
  also have "\<dots> = filter (\<lambda>x. f k = f x) xs"
    using assms(3) k by (intro inj_on_filter_key_eq [symmetric]) (simp add: insert_absorb)
  finally show "filter (\<lambda>x. f k = f x) ys = filter (\<lambda>x. f k = f x) xs" .
qed

lemma remdups_map_inj:
  "inj_on f (set xs) \<Longrightarrow> remdups (map f xs) = map f (remdups xs)"
  by (induction xs) (auto simp: inj_on_def)

lemma pair_of_inj: "0 < n \<Longrightarrow> inj (pair_of n)"
  by (simp add: inj_def pair_of_def)

lemma pair_of_no_nan: "0 < n \<Longrightarrow> NaN \<notin> set (pair_of n m)"
  by (simp add: pair_of_def fraction_def)

lemma tuple_key_pair_of:
  "0 < n \<Longrightarrow> tuple_key (pair_of n m) = [(False, of_nat m), (False, of_nat m / of_nat n)]"
  by (simp add: tuple_key_def pair_of_def fraction_def)

lemma tuple_key_mono:
  assumes "0 < n" and "m \<le> m'"
  shows "tuple_key (pair_of n m) \<le> tuple_key (pair_of n m')"
proof -
  have "(of_nat m :: rat) / of_nat n \<le> of_nat m' / of_nat n"
    using assms by (simp add: divide_right_mono)
  then show ?thesis using assms by (auto simp: tuple_key_pair_of)
qed

lemma tuple_key_inj: "0 < n \<Longrightarrow> inj (\<lambda>m. tuple_key (pair_of n m))"
  by (simp add: inj_def tuple_key_pair_of)

lemma counted_sorted:
  fixes p :: "nat \<Rightarrow> scalar list" and ms :: "nat list"
  assumes inj: "inj p"
    and nan: "\<And>m. NaN \<notin> set (p m)"
    and mono: "\<And>m m'. m \<le> m' \<Longrightarrow> tuple_key (p m) \<le> tuple_key (p m')"
    and kinj: "inj (\<lambda>m. tuple_key (p m))"
    and rows: "map snd (df_rows frame) = map p ms"
  shows "s_items (sort_index (value_counts frame)) = map (group_of p ms) (sort (remdups ms))"
proof -
  let ?ts = "map p ms"
  let ?H = "\<lambda>t. (t, int (count_list ?ts t))"
  let ?wrap = "\<lambda>tc :: scalar list \<times> int. (fst tc, IntV (snd tc))"
  let ?K = "\<lambda>tc :: scalar list \<times> scalar. tuple_key (fst tc)"
  let ?xs = "map ?wrap (sort_key (\<lambda>tc. - snd tc) (map ?H (sort_key tuple_key (remdups ?ts))))"
  let ?ys = "map (group_of p ms) (sort (remdups ms))"
  have kept: "filter (\<lambda>t. NaN \<notin> set t) (map snd (df_rows frame)) = ?ts"
    unfolding rows using nan by (simp add: filter_map comp_def)
  have items: "s_items (sort_index (value_counts frame)) = sort_key ?K ?xs"
    by (simp add: sort_index_def value_counts_def Let_def kept)
  have rd: "remdups ?ts = map p (remdups ms)"
    by (rule remdups_map_inj) (rule inj_on_subset [OF inj], simp)
  have gdef: "group_of p ms = (\<lambda>m. (p m, IntV (int (count_list ms m))))"
    by (simp add: fun_eq_iff group_of_def)
  have "mset ?xs = image_mset ?wrap (image_mset ?H (mset (remdups ?ts)))"
    by simp
  also have "\<dots> = image_mset (group_of p ms) (mset (remdups ms))"
    unfolding rd gdef
    by (simp add: multiset.map_comp comp_def count_list_map_conv [OF inj])
  also have "\<dots> = mset ?ys" by simp
  finally have m: "mset ?ys = mset ?xs" by simp
  have "sorted (map (\<lambda>m. tuple_key (p m)) (sort (remdups ms)))"
    unfolding sorted_map
    by (rule sorted_wrt_mono_rel [of _ "(\<le>)"]) (auto intro: mono)
  then have s: "sorted (map ?K ?ys)"
    by (simp add: comp_def group_of_def)
  have "set ?xs = group_of p ms ` set ms"
    using m by (metis (no_types, lifting) mset_eq_setD set_map set_remdups set_sort)
  moreover have "inj_on ?K (group_of p ms ` set ms)"
    using kinj by (auto simp: inj_on_def group_of_def dest: injD)
  ultimately have i: "inj_on ?K (set ?xs)" by simp
  show ?thesis unfolding items by (rule sort_key_unique [OF m s i])
qed

lemma summarize_row_nulls_eq:
  assumes "wf_df df" and "df_columns df \<noteq> []"
  shows "summarize_row_nulls df =
     Inr \<lparr>s_name = None, s_levels = [Str ''columns_missing'', Str ''percent_missing''],
          s_items = map (group_of (pair_of (col_count df)) (row_missing_counts df))
                      (sort (remdups (row_missing_counts df)))\<rparr>"
proof -
  let ?n = "col_count df"
  let ?frame = "\<lparr>df_columns = [Str ''columns_missing'', Str ''percent_missing''],
          df_rows = map (\<lambda>r. (fst r, pair_of (length (snd r)) (missing_in_row (snd r))))
                      (df_rows df)\<rparr> :: ('a, scalar) dataframe"
  from assms(2) have n: "0 < ?n" by (simp add: col_count_def)
  have rows: "map snd (df_rows ?frame) = map (pair_of ?n) (row_missing_counts df)"
    using assms(1)
    by (auto simp: wf_df_def list_all_iff col_count_def row_missing_counts_def)
  have items: "s_items (sort_index (value_counts ?frame)) =
      map (group_of (pair_of ?n) (row_missing_counts df)) (sort (remdups (row_missing_counts df)))"
    by (rule counted_sorted [OF pair_of_inj [OF n] pair_of_no_nan [OF n]
          tuple_key_mono [OF n] tuple_key_inj [OF n] rows])
  have "sort_index (value_counts ?frame) =
      \<lparr>s_name = None, s_levels = [Str ''columns_missing'', Str ''percent_missing''],
       s_items = s_items (sort_index (value_counts ?frame))\<rparr>"
    by (simp add: sort_index_def value_counts_def Let_def)
  then show ?thesis
    unfolding summarize_row_nulls_def row_nulls_eq items by simp
qed

lemma value_counts_keys:
  "fst ` set (s_items (sort_index (value_counts frame))) =
     {t \<in> snd ` set (df_rows frame). NaN \<notin> set t}"
  by (force simp: sort_index_def value_counts_def Let_def image_iff)

lemma wf_df_four: "wf_df df_four"
  by (simp add: wf_df_def df_four_def)

lemma counts_four: "row_missing_counts df_four = [1, 1, 0, 0]"
  by (simp add: row_missing_counts_def df_four_def missing_in_row_def)

text \<open>
  Claim C2, as the code has it. For every dataset with at least one column, the row
  summarizer first computes per row the pair (number of missing values in the row, that
  number divided by the number of columns), and returns one entry per distinct pair,
  holding the number of rows with that pair, in ascending order of the count (and so of
  the fraction).
\<close>

theorem row_summary_groups:
  assumes "wf_df df" and "df_columns df \<noteq> []"
  shows "row_nulls df =
     Inr \<lparr>df_columns = [Str ''columns_missing'', Str ''percent_missing''],
          df_rows = map (\<lambda>r. (fst r, [IntV (int (missing_in_row (snd r))),
                                       FloatV (of_nat (missing_in_row (snd r)) /
                                               of_nat (col_count df))]))
                      (df_rows df)\<rparr> \<and>
   summarize_row_nulls df =
     Inr \<lparr>s_name = None, s_levels = [Str ''columns_missing'', Str ''percent_missing''],
          s_items = map (\<lambda>m. ([IntV (int m), FloatV (of_nat m / of_nat (col_count df))],
                               IntV (int (count_list (row_missing_counts df) m))))
                      (sort (remdups (row_missing_counts df)))\<rparr>"
proof
  from assms(2) have n: "col_count df \<noteq> 0" by (simp add: col_count_def)
  have len: "length (snd r) = col_count df" if "r \<in> set (df_rows df)" for r
    using assms(1) that by (simp add: wf_df_def list_all_iff col_count_def)
  show "row_nulls df =
     Inr \<lparr>df_columns = [Str ''columns_missing'', Str ''percent_missing''],
          df_rows = map (\<lambda>r. (fst r, [IntV (int (missing_in_row (snd r))),
                                       FloatV (of_nat (missing_in_row (snd r)) /
                                               of_nat (col_count df))]))
                      (df_rows df)\<rparr>"
    unfolding row_nulls_eq using n by (simp add: pair_of_def fraction_def len cong: map_cong)
  have g: "group_of (pair_of (col_count df)) (row_missing_counts df) =
      (\<lambda>m. ([IntV (int m), FloatV (of_nat m / of_nat (col_count df))],
            IntV (int (count_list (row_missing_counts df) m))))"
    using n by (simp add: fun_eq_iff group_of_def pair_of_def fraction_def)
  show "summarize_row_nulls df =
     Inr \<lparr>s_name = None, s_levels = [Str ''columns_missing'', Str ''percent_missing''],
          s_items = map (\<lambda>m. ([IntV (int m), FloatV (of_nat m / of_nat (col_count df))],
                               IntV (int (count_list (row_missing_counts df) m))))
                      (sort (remdups (row_missing_counts df)))\<rparr>"
    unfolding summarize_row_nulls_eq [OF assms] g ..
qed

text \<open>
  The example of the claim: rows 0 and 1 with one missing value each, rows 2 and 3 with
  none, give two groups of size 2, the group without missing values first.
\<close>

theorem row_summary_groups_witness:
  "wf_df df_four \<and> df_columns df_four \<noteq> [] \<and>
   row_nulls df_four =
     Inr \<lparr>df_columns = [Str ''columns_missing'', Str ''percent_missing''],
          df_rows = [(0, [IntV 1, FloatV (1 / 2)]), (1, [IntV 1, FloatV (1 / 2)]),
                     (2, [IntV 0, FloatV 0]), (3, [IntV 0, FloatV 0])]\<rparr> \<and>
   summarize_row_nulls df_four =
     Inr \<lparr>s_name = None, s_levels = [Str ''columns_missing'', Str ''percent_missing''],
          s_items = [([IntV 0, FloatV 0], IntV 2), ([IntV 1, FloatV (1 / 2)], IntV 2)]\<rparr>"
proof -
  have ne: "df_columns df_four \<noteq> []" by (simp add: df_four_def)
  have c: "col_count df_four = 2" by (simp add: col_count_def df_four_def)
  have rows: "df_rows df_four = [(0, [None, Some 1]), (1, [Some 2, None]),
                  (2, [Some 1, Some 1]), (3, [Some 3, Some 4])]"
    by (simp add: df_four_def)
  show ?thesis
    using row_summary_groups [OF wf_df_four ne] wf_df_four ne
    by (simp add: counts_four c rows missing_in_row_def)
qed

text \<open>
  Claim C2 as stated fails for a dataset with rows and no columns: both rows have the
  pair (0, NaN), and the result has no entry at all, since \<open>value_counts\<close> drops the
  rows that hold a NaN.
\<close>

theorem row_pairs_dropped_without_columns:
  "row_nulls df_no_columns =
     Inr \<lparr>df_columns = [Str ''columns_missing'', Str ''percent_missing''],
          df_rows = [(0, [IntV 0, NaN]), (1, [IntV 0, NaN])]\<rparr> \<and>
   summarize_row_nulls df_no_columns =
     Inr \<lparr>s_name = None, s_levels = [Str ''columns_missing'', Str ''percent_missing''],
          s_items = []\<rparr>"
proof -
  have r: "row_nulls df_no_columns =
     Inr \<lparr>df_columns = [Str ''columns_missing'', Str ''percent_missing''],
          df_rows = [(0, [IntV 0, NaN]), (1, [IntV 0, NaN])]\<rparr>"
    unfolding row_nulls_eq
    by (simp add: df_no_columns_def pair_of_def fraction_def missing_in_row_def)
  show ?thesis
    unfolding summarize_row_nulls_def r
    by (simp add: sort_index_def value_counts_def)
qed

subsection \<open>A missing count of zero\<close>

lemma column_zero_fraction:
  assumes "wf_df df" and "0 < row_count df" and "summarize_column_nulls df = Inr s"
    and "r \<in> set (df_rows s)" and "snd r ! 0 = IntV 0"
  shows "snd r ! 1 = FloatV 0"
proof -
  have cols: "df_columns (isnull df) = df_columns df" by (simp add: isnull_def)
  from assms(3) have "df_rows s =
      map (\<lambda>j. (df_columns df ! j,
                [sum_bool (column_at (isnull df) j), mean_bool (column_at (isnull df) j)]))
        [0..<length (df_columns df)]"
    unfolding summarize_column_nulls_def concat_reduce_axis0 cols by auto
  with assms(4) obtain j where j: "j < length (df_columns df)"
    and r: "snd r = [sum_bool (column_at (isnull df) j), mean_bool (column_at (isnull df) j)]"
    by auto
  from assms(5) r have "missing_in_column df j = 0"
    by (simp add: sum_bool_column [OF assms(1) j])
  with r assms(2) show ?thesis
    by (simp add: mean_bool_column [OF assms(1) j] fraction_def)
qed

lemma row_group_zero_fraction:
  fixes df :: "('k, 'c option) dataframe"
  assumes "summarize_row_nulls df = Inr t" and "g \<in> set (s_items t)" and "fst g ! 0 = IntV 0"
  shows "fst g ! 1 = FloatV 0"
proof -
  let ?frame = "\<lparr>df_columns = [Str ''columns_missing'', Str ''percent_missing''],
          df_rows = map (\<lambda>r. (fst r, pair_of (length (snd r)) (missing_in_row (snd r))))
                      (df_rows df)\<rparr> :: ('k, scalar) dataframe"
  from assms(1) have t: "t = sort_index (value_counts ?frame)"
    unfolding summarize_row_nulls_def row_nulls_eq by simp
  from assms(2) have "fst g \<in> fst ` set (s_items t)" by (rule imageI)
  then have "fst g \<in> {t \<in> snd ` set (df_rows ?frame). NaN \<notin> set t}"
    unfolding t value_counts_keys .
  then obtain cells :: "'c option list"
    where g: "fst g = pair_of (length cells) (missing_in_row cells)"
    and nan: "NaN \<notin> set (fst g)"
    by auto
  from assms(3) g have "missing_in_row cells = 0" by (simp add: pair_of_def)
  with g nan show ?thesis by (simp add: pair_of_def fraction_def split: if_splits)
qed

lemma summarizers_return:
  "\<exists>s t. summarize_column_nulls df = Inr s \<and> summarize_row_nulls df = Inr t"
  unfolding summarize_column_nulls_def concat_reduce_axis0 summarize_row_nulls_def row_nulls_eq
  by simp

lemma column_summary_rows:
  assumes "wf_df df" and "summarize_column_nulls df = Inr s"
  shows "df_rows s = map (\<lambda>j. (df_columns df ! j,
                                [IntV (int (missing_in_column df j)),
                                 fraction (missing_in_column df j) (row_count df)]))
                       [0..<col_count df]"
proof -
  have cols: "df_columns (isnull df) = df_columns df" by (simp add: isnull_def)
  from assms(2) have "df_rows s =
      map (\<lambda>j. (df_columns df ! j,
                [sum_bool (column_at (isnull df) j), mean_bool (column_at (isnull df) j)]))
        [0..<length (df_columns df)]"
    unfolding summarize_column_nulls_def concat_reduce_axis0 cols by auto
  then show ?thesis
    unfolding col_count_def
    by (simp add: sum_bool_column [OF assms(1)] mean_bool_column [OF assms(1)] cong: map_cong)
qed

lemma no_missing_column:
  assumes "wf_df df" and "no_missing df" and "j < col_count df"
  shows "missing_in_column df j = 0"
proof -
  have "snd r ! j \<noteq> None" if "r \<in> set (df_rows df)" for r
  proof -
    from assms(1) that have "length (snd r) = length (df_columns df)"
      by (simp add: wf_df_def list_all_iff)
    with assms(3) have "snd r ! j \<in> set (snd r)" by (simp add: col_count_def)
    moreover from assms(2) that have "None \<notin> set (snd r)"
      by (simp add: no_missing_def list_all_iff)
    ultimately show ?thesis by metis
  qed
  then show ?thesis by (simp add: missing_in_column_def)
qed

lemma no_missing_row:
  assumes "no_missing df" and "r \<in> set (df_rows df)"
  shows "missing_in_row (snd r) = 0"
proof -
  from assms have "None \<notin> set (snd r)" by (simp add: no_missing_def list_all_iff)
  then have "\<forall>c \<in> set (snd r). c \<noteq> None" by metis
  then have "filter (\<lambda>c. c = None) (snd r) = []" by (simp add: filter_empty_conv)
  then show ?thesis by (simp add: missing_in_row_def)
qed

lemma no_missing_counts:
  assumes "no_missing df"
  shows "row_missing_counts df = replicate (row_count df) 0"
proof -
  have "map (\<lambda>r. missing_in_row (snd r)) (df_rows df) = map (\<lambda>r. 0) (df_rows df)"
    using no_missing_row [OF assms] by (intro map_cong) auto
  then show ?thesis by (simp add: row_missing_counts_def row_count_def map_replicate_const)
qed

lemma count_list_replicate_same: "count_list (replicate n x) x = n"
  by (induction n) auto

lemma row_group_source:
  fixes df :: "('k, 'c option) dataframe"
  assumes "summarize_row_nulls df = Inr t" and "g \<in> set (s_items t)"
  shows "\<exists>r \<in> set (df_rows df).
           fst g = pair_of (length (snd r)) (missing_in_row (snd r)) \<and> NaN \<notin> set (fst g)"
proof -
  let ?frame = "\<lparr>df_columns = [Str ''columns_missing'', Str ''percent_missing''],
          df_rows = map (\<lambda>r. (fst r, pair_of (length (snd r)) (missing_in_row (snd r))))
                      (df_rows df)\<rparr> :: ('k, scalar) dataframe"
  from assms(1) have t: "t = sort_index (value_counts ?frame)"
    unfolding summarize_row_nulls_def row_nulls_eq by simp
  from assms(2) have "fst g \<in> fst ` set (s_items t)" by (rule imageI)
  then have "fst g \<in> {t \<in> snd ` set (df_rows ?frame). NaN \<notin> set t}"
    unfolding t value_counts_keys .
  then show ?thesis by fastforce
qed

lemma remdups_replicate_same: "remdups (replicate (Suc n) x) = [x]"
  by (induction n) auto

lemma zero_pair: "NaN \<notin> set (pair_of n 0) \<Longrightarrow> pair_of n 0 = [IntV 0, FloatV 0]"
  by (simp add: pair_of_def fraction_def split: if_splits)

lemma wf_df_full: "wf_df df_full"
  by (simp add: wf_df_def df_full_def)

text \<open>
  Claim C7, as the code has it. Both summarizers return, and the column summary has one
  row per column. In a dataset with at least one row, every column without a missing
  value has the row (column label, 0, 0.0) in the column summary, and every row of the
  column summary whose count is 0 has the fraction 0.0. In every dataset, a row group
  whose count is 0 has the fraction 0.0, and when the dataset has a column and a row
  without missing values, the group (0, 0.0) is in the row summary with the number of
  such rows. In particular, in a dataset with at least one row and no missing value
  anywhere, every row of the column summary is (column label, 0, 0.0) and every row
  group is (0, 0.0); with at least one column the row summary is that one group,
  holding all rows.
\<close>

theorem zero_count_zero_fraction:
  assumes "wf_df df"
  shows "\<exists>s t. summarize_column_nulls df = Inr s \<and> summarize_row_nulls df = Inr t \<and>
     length (df_rows s) = col_count df \<and>
     (0 < row_count df \<longrightarrow>
        (\<forall>j < col_count df. missing_in_column df j = 0 \<longrightarrow>
            df_rows s ! j = (df_columns df ! j, [IntV 0, FloatV 0])) \<and>
        (\<forall>r \<in> set (df_rows s). snd r ! 0 = IntV 0 \<longrightarrow> snd r ! 1 = FloatV 0)) \<and>
     (\<forall>g \<in> set (s_items t). fst g ! 0 = IntV 0 \<longrightarrow> fst g ! 1 = FloatV 0) \<and>
     (df_columns df \<noteq> [] \<and> 0 \<in> set (row_missing_counts df) \<longrightarrow>
        ([IntV 0, FloatV 0], IntV (int (count_list (row_missing_counts df) 0)))
          \<in> set (s_items t)) \<and>
     (no_missing df \<and> 0 < row_count df \<longrightarrow>
        df_rows s = map (\<lambda>c. (c, [IntV 0, FloatV 0])) (df_columns df) \<and>
        (\<forall>g \<in> set (s_items t). fst g = [IntV 0, FloatV 0]) \<and>
        (df_columns df \<noteq> [] \<longrightarrow>
           s_items t = [([IntV 0, FloatV 0], IntV (int (row_count df)))]))"
proof -
  obtain s t where st: "summarize_column_nulls df = Inr s" "summarize_row_nulls df = Inr t"
    using summarizers_return by blast
  note rows = column_summary_rows [OF assms st(1)]
  have len: "length (df_rows s) = col_count df"
    unfolding rows by simp
  have a: "\<forall>j < col_count df. missing_in_column df j = 0 \<longrightarrow>
            df_rows s ! j = (df_columns df ! j, [IntV 0, FloatV 0])"
    if "0 < row_count df"
    using that unfolding rows by (simp add: fraction_def)
  have b: "\<forall>r \<in> set (df_rows s). snd r ! 0 = IntV 0 \<longrightarrow> snd r ! 1 = FloatV 0"
    if "0 < row_count df"
    using column_zero_fraction [OF assms that st(1)] by blast
  have c: "\<forall>g \<in> set (s_items t). fst g ! 0 = IntV 0 \<longrightarrow> fst g ! 1 = FloatV 0"
    using row_group_zero_fraction [OF st(2)] by blast
  have items: "s_items t = map (group_of (pair_of (col_count df)) (row_missing_counts df))
                      (sort (remdups (row_missing_counts df)))"
    if "df_columns df \<noteq> []"
    using st(2) unfolding summarize_row_nulls_eq [OF assms that] by auto
  have g0: "group_of (pair_of (col_count df)) ms 0 = ([IntV 0, FloatV 0], IntV (int (count_list ms 0)))"
    if "df_columns df \<noteq> []" for ms
    using that by (simp add: group_of_def pair_of_def fraction_def col_count_def)
  have d: "([IntV 0, FloatV 0], IntV (int (count_list (row_missing_counts df) 0)))
          \<in> set (s_items t)"
    if "df_columns df \<noteq> []" and "0 \<in> set (row_missing_counts df)"
  proof -
    from that(2) have "0 \<in> set (sort (remdups (row_missing_counts df)))" by simp
    then have "group_of (pair_of (col_count df)) (row_missing_counts df) 0 \<in> set (s_items t)"
      unfolding items [OF that(1)] by (simp only: set_map) (rule imageI)
    then show ?thesis unfolding g0 [OF that(1)] .
  qed
  have e1: "df_rows s = map (\<lambda>c. (c, [IntV 0, FloatV 0])) (df_columns df)"
    if "no_missing df" and "0 < row_count df"
  proof -
    have "df_rows s = map (\<lambda>j. (df_columns df ! j, [IntV 0, FloatV 0])) [0..<length (df_columns df)]"
      unfolding rows col_count_def using that(2) no_missing_column [OF assms that(1)]
      by (simp add: fraction_def col_count_def cong: map_cong)
    also have "\<dots> = map (\<lambda>c. (c, [IntV 0, FloatV 0])) (df_columns df)"
      by (rule map_upt_nth)
    finally show ?thesis .
  qed
  have e2: "\<forall>g \<in> set (s_items t). fst g = [IntV 0, FloatV 0]" if "no_missing df"
  proof
    fix g assume "g \<in> set (s_items t)"
    from row_group_source [OF st(2) this] obtain r where r: "r \<in> set (df_rows df)"
      and k: "fst g = pair_of (length (snd r)) (missing_in_row (snd r))"
      and n: "NaN \<notin> set (fst g)"
      by blast
    from k n show "fst g = [IntV 0, FloatV 0]"
      unfolding no_missing_row [OF that r] by (simp add: zero_pair)
  qed
  have e3: "s_items t = [([IntV 0, FloatV 0], IntV (int (row_count df)))]"
    if "no_missing df" and "0 < row_count df" and "df_columns df \<noteq> []"
  proof -
    from that(2) obtain k where k: "row_count df = Suc k" by (cases "row_count df") auto
    show ?thesis
      unfolding items [OF that(3)] no_missing_counts [OF that(1)] k remdups_replicate_same
      by (simp add: g0 [OF that(3)] count_list_replicate_same del: replicate_Suc)
  qed
  have A: "0 < row_count df \<longrightarrow>
        (\<forall>j < col_count df. missing_in_column df j = 0 \<longrightarrow>
            df_rows s ! j = (df_columns df ! j, [IntV 0, FloatV 0])) \<and>
        (\<forall>r \<in> set (df_rows s). snd r ! 0 = IntV 0 \<longrightarrow> snd r ! 1 = FloatV 0)"
    by (intro impI conjI) (erule a, erule b)
  have D: "df_columns df \<noteq> [] \<and> 0 \<in> set (row_missing_counts df) \<longrightarrow>
        ([IntV 0, FloatV 0], IntV (int (count_list (row_missing_counts df) 0)))
          \<in> set (s_items t)"
    by (intro impI, elim conjE) (rule d)
  have E: "no_missing df \<and> 0 < row_count df \<longrightarrow>
        df_rows s = map (\<lambda>c. (c, [IntV 0, FloatV 0])) (df_columns df) \<and>
        (\<forall>g \<in> set (s_items t). fst g = [IntV 0, FloatV 0]) \<and>
        (df_columns df \<noteq> [] \<longrightarrow>
           s_items t = [([IntV 0, FloatV 0], IntV (int (row_count df)))])"
  proof (intro impI conjI; elim conjE)
    assume n: "no_missing df" and r: "0 < row_count df"
    show "df_rows s = map (\<lambda>c. (c, [IntV 0, FloatV 0])) (df_columns df)"
      by (rule e1 [OF n r])
    show "\<forall>g \<in> set (s_items t). fst g = [IntV 0, FloatV 0]"
      by (rule e2 [OF n])
    show "s_items t = [([IntV 0, FloatV 0], IntV (int (row_count df)))]"
      if "df_columns df \<noteq> []"
      by (rule e3 [OF n r that])
  qed
  show ?thesis
    by (intro exI conjI) (rule st(1), rule st(2), rule len, rule A, rule c, rule D, rule E)
qed

theorem zero_count_zero_fraction_witness:
  "wf_df df_full \<and> 0 < row_count df_full \<and> no_missing df_full \<and> df_columns df_full \<noteq> [] \<and>
   (\<exists>s t. summarize_column_nulls df_full = Inr s \<and> summarize_row_nulls df_full = Inr t \<and>
      df_rows s = [(Str ''x'', [IntV 0, FloatV 0]), (Str ''y'', [IntV 0, FloatV 0])] \<and>
      s_items t = [([IntV 0, FloatV 0], IntV 3)]) \<and>
   wf_df df_abc5 \<and> 0 < row_count df_abc5 \<and> 1 < col_count df_abc5 \<and>
   missing_in_column df_abc5 1 = 0 \<and> 0 \<in> set (row_missing_counts df_abc5) \<and>
   (\<exists>s t. summarize_column_nulls df_abc5 = Inr s \<and> summarize_row_nulls df_abc5 = Inr t \<and>
      df_rows s ! 1 = (Str ''B'', [IntV 0, FloatV 0]) \<and>
      ([IntV 0, FloatV 0], IntV 1) \<in> set (s_items t))"
proof -
  have f: "0 < row_count df_full" "no_missing df_full" "df_columns df_full \<noteq> []"
    "row_count df_full = 3" "df_columns df_full = [Str ''x'', Str ''y'']"
    by (simp_all add: row_count_def no_missing_def df_full_def)
  have a: "0 < row_count df_abc5" "1 < col_count df_abc5" "missing_in_column df_abc5 1 = 0"
    "df_columns df_abc5 \<noteq> []" "df_columns df_abc5 ! 1 = Str ''B''"
    by (simp_all add: row_count_def col_count_def missing_in_column_def df_abc5_def)
  have m: "row_missing_counts df_abc5 = [1, 1, 1, 1, 0]"
    by (simp add: row_missing_counts_def df_abc5_def missing_in_row_def)
  have c: "0 \<in> set (row_missing_counts df_abc5)" "count_list (row_missing_counts df_abc5) 0 = 1"
    unfolding m by simp_all
  from zero_count_zero_fraction [OF wf_df_full] f(1,2,3)
  obtain s t where full: "summarize_column_nulls df_full = Inr s"
      "summarize_row_nulls df_full = Inr t"
      "df_rows s = map (\<lambda>c. (c, [IntV 0, FloatV 0])) (df_columns df_full)"
      "s_items t = [([IntV 0, FloatV 0], IntV (int (row_count df_full)))]"
    by blast
  have p1: "\<exists>s t. summarize_column_nulls df_full = Inr s \<and> summarize_row_nulls df_full = Inr t \<and>
      df_rows s = [(Str ''x'', [IntV 0, FloatV 0]), (Str ''y'', [IntV 0, FloatV 0])] \<and>
      s_items t = [([IntV 0, FloatV 0], IntV 3)]"
    using full unfolding f(4,5) by simp
  from zero_count_zero_fraction [OF wf_df_abc5] a(1,2,3,4) c(1)
  obtain s' t' where abc: "summarize_column_nulls df_abc5 = Inr s'"
      "summarize_row_nulls df_abc5 = Inr t'"
      "df_rows s' ! 1 = (df_columns df_abc5 ! 1, [IntV 0, FloatV 0])"
      "([IntV 0, FloatV 0], IntV (int (count_list (row_missing_counts df_abc5) 0)))
          \<in> set (s_items t')"
    by blast
  have p2: "\<exists>s t. summarize_column_nulls df_abc5 = Inr s \<and> summarize_row_nulls df_abc5 = Inr t \<and>
      df_rows s ! 1 = (Str ''B'', [IntV 0, FloatV 0]) \<and>
      ([IntV 0, FloatV 0], IntV 1) \<in> set (s_items t)"
    using abc unfolding a(5) c(2) by simp
  show ?thesis
    using wf_df_full f(1,2,3) p1 wf_df_abc5 a(1,2,3) c(1) p2 by (intro conjI)
qed

text \<open>
  Claim C7 as stated fails for a dataset with a column and no rows: the missing count
  of the column is 0 and its fraction is NaN.
\<close>

theorem no_rows_fraction_is_nan:
  "summarize_column_nulls df_no_rows =
     Inr \<lparr>df_columns = [Str ''rows_missing'', Str ''percent_missing''],
          df_rows = [(Str ''A'', [IntV 0, NaN])]\<rparr>"
  unfolding summarize_column_nulls_def concat_reduce_axis0
  by (simp add: isnull_def df_no_rows_def column_at_def sum_bool_def mean_bool_def)

subsection \<open>The kind of object returned\<close>

text \<open>
  Claim C8 at a dataset of two rows and two columns: the column summary is a DataFrame
  with the columns \<open>rows_missing\<close> and \<open>percent_missing\<close>, but the row summary is a
  Series, not a DataFrame: it has no columns; \<open>columns_missing\<close> and
  \<open>percent_missing\<close> are the names of the two levels of its index, and its values are
  the group sizes.
\<close>

theorem row_summary_is_series:
  "summarize_column_nulls df_ab =
     Inr \<lparr>df_columns = [Str ''rows_missing'', Str ''percent_missing''],
          df_rows = [(Str ''a'', [IntV 0, FloatV 0]), (Str ''b'', [IntV 1, FloatV (1 / 2)])]\<rparr> \<and>
   summarize_row_nulls df_ab =
     Inr \<lparr>s_name = None, s_levels = [Str ''columns_missing'', Str ''percent_missing''],
          s_items = [([IntV 0, FloatV 0], IntV 1), ([IntV 1, FloatV (1 / 2)], IntV 1)]\<rparr>"
proof
  show "summarize_column_nulls df_ab =
     Inr \<lparr>df_columns = [Str ''rows_missing'', Str ''percent_missing''],
          df_rows = [(Str ''a'', [IntV 0, FloatV 0]), (Str ''b'', [IntV 1, FloatV (1 / 2)])]\<rparr>"
    unfolding summarize_column_nulls_def concat_reduce_axis0
    by (simp add: isnull_def df_ab_def column_at_def sum_bool_def mean_bool_def
        upt_rec numeral_eq_Suc)
  have wf: "wf_df df_ab" by (simp add: wf_df_def df_ab_def)
  have ne: "df_columns df_ab \<noteq> []" by (simp add: df_ab_def)
  have c: "col_count df_ab = 2" by (simp add: col_count_def df_ab_def)
  have m: "row_missing_counts df_ab = [1, 0]"
    by (simp add: row_missing_counts_def df_ab_def missing_in_row_def)
  show "summarize_row_nulls df_ab =
     Inr \<lparr>s_name = None, s_levels = [Str ''columns_missing'', Str ''percent_missing''],
          s_items = [([IntV 0, FloatV 0], IntV 1), ([IntV 1, FloatV (1 / 2)], IntV 1)]\<rparr>"
    unfolding summarize_row_nulls_eq [OF wf ne]
    by (simp add: m c group_of_def pair_of_def fraction_def)
qed

subsection \<open>No mutation of the input\<close>

lemma deref_append [simp]:
  "r < length h \<Longrightarrow> deref (h @ xs) r = deref h r"
  by (simp add: deref_def nth_append)

lemma deref_new [simp]: "deref (h @ x # xs) (length h) = Some x"
  by (simp add: deref_def)

lemma deref_Some_less: "deref h r = Some obj \<Longrightarrow> r < length h"
  by (simp add: deref_def split: if_splits)

lemma then_call_Inr [simp]: "then_call (Inr (r, h)) f = f r h"
  by (simp add: then_call_def)

lemma deref_at: "deref (h @ xs) (length h + i) = (if i < length xs then Some (xs ! i) else None)"
  by (simp add: deref_def nth_append)

lemma isnull_call_eq:
  "deref h r = Some (Frame d) \<Longrightarrow> isnull_call r h = Inr (length h, h @ [BoolFrame (isnull d)])"
  by (simp add: isnull_call_def alloc_def)

lemma reduce_call_axis0:
  "deref h r = Some (BoolFrame b) \<Longrightarrow>
   reduce_call f 0 r h = Inr (length h, h @ [ColSeries (reduce_axis0 f b)])"
  by (simp add: reduce_call_def alloc_def)

lemma reduce_call_axis1:
  "deref h r = Some (BoolFrame b) \<Longrightarrow>
   reduce_call f 1 r h = Inr (length h, h @ [RowSeries (reduce_axis1 f b)])"
  by (simp add: reduce_call_def alloc_def)

lemma rename_call_col:
  "deref h r = Some (ColSeries s) \<Longrightarrow>
   rename_call name r h = Inr (length h, h @ [ColSeries (rename s name)])"
  by (simp add: rename_call_def alloc_def)

lemma rename_call_row:
  "deref h r = Some (RowSeries s) \<Longrightarrow>
   rename_call name r h = Inr (length h, h @ [RowSeries (rename s name)])"
  by (simp add: rename_call_def alloc_def)

lemma column_chain:
  assumes "deref h df = Some (Frame d)"
  shows "then_call (then_call (isnull_call df h) (reduce_call f 0)) (rename_call name) =
     Inr (length h + 2,
          h @ [BoolFrame (isnull d), ColSeries (reduce_axis0 f (isnull d)),
               ColSeries (rename (reduce_axis0 f (isnull d)) name)])"
proof -
  let ?h1 = "h @ [BoolFrame (isnull d)]"
  let ?h2 = "?h1 @ [ColSeries (reduce_axis0 f (isnull d))]"
  have 1: "isnull_call df h = Inr (length h, ?h1)"
    by (rule isnull_call_eq [OF assms])
  have 2: "reduce_call f 0 (length h) ?h1 = Inr (length ?h1, ?h2)"
    by (rule reduce_call_axis0) simp
  have 3: "rename_call name (length ?h1) ?h2 =
      Inr (length ?h2, ?h2 @ [ColSeries (rename (reduce_axis0 f (isnull d)) name)])"
    by (rule rename_call_col) (simp only: deref_new)
  show ?thesis unfolding 1 then_call_Inr 2 3 by simp
qed

lemma row_chain:
  assumes "deref h df = Some (Frame d)"
  shows "then_call (then_call (isnull_call df h) (reduce_call f 1)) (rename_call name) =
     Inr (length h + 2,
          h @ [BoolFrame (isnull d), RowSeries (reduce_axis1 f (isnull d)),
               RowSeries (rename (reduce_axis1 f (isnull d)) name)])"
proof -
  let ?h1 = "h @ [BoolFrame (isnull d)]"
  let ?h2 = "?h1 @ [RowSeries (reduce_axis1 f (isnull d))]"
  have 1: "isnull_call df h = Inr (length h, ?h1)"
    by (rule isnull_call_eq [OF assms])
  have 2: "reduce_call f 1 (length h) ?h1 = Inr (length ?h1, ?h2)"
    by (rule reduce_call_axis1) simp
  have 3: "rename_call name (length ?h1) ?h2 =
      Inr (length ?h2, ?h2 @ [RowSeries (rename (reduce_axis1 f (isnull d)) name)])"
    by (rule rename_call_row) (simp only: deref_new)
  show ?thesis unfolding 1 then_call_Inr 2 3 by simp
qed

lemma summarize_column_nulls_run_eq:
  assumes "deref h df = Some (Frame d)" and "summarize_column_nulls d = Inr f"
  shows "summarize_column_nulls_run df h =
     Inr (length h + 6,
          h @ [BoolFrame (isnull d),
               ColSeries (reduce_axis0 sum_bool (isnull d)),
               ColSeries (rename (reduce_axis0 sum_bool (isnull d)) ''rows_missing''),
               BoolFrame (isnull d),
               ColSeries (reduce_axis0 mean_bool (isnull d)),
               ColSeries (rename (reduce_axis0 mean_bool (isnull d)) ''percent_missing''),
               ColFrame f])"
proof -
  let ?a = "ColSeries (rename (reduce_axis0 sum_bool (isnull d)) ''rows_missing'')"
  let ?b = "ColSeries (rename (reduce_axis0 mean_bool (isnull d)) ''percent_missing'')"
  let ?xs = "[BoolFrame (isnull d), ColSeries (reduce_axis0 sum_bool (isnull d)), ?a]"
  let ?ys = "[BoolFrame (isnull d), ColSeries (reduce_axis0 mean_bool (isnull d)), ?b]"
  from assms(1) have r: "df < length h" by (rule deref_Some_less)
  have d1: "deref (h @ ?xs) df = Some (Frame d)"
    using r assms(1) by simp
  have c1: "then_call (then_call (isnull_call df h) (reduce_call sum_bool 0))
                  (rename_call ''rows_missing'') = Inr (length h + 2, h @ ?xs)"
    by (rule column_chain [OF assms(1)])
  have c2: "then_call (then_call (isnull_call df (h @ ?xs)) (reduce_call mean_bool 0))
                  (rename_call ''percent_missing'') = Inr (length h + 5, (h @ ?xs) @ ?ys)"
    using column_chain [OF d1, of mean_bool "''percent_missing''"] by simp
  have a: "deref ((h @ ?xs) @ ?ys) (length h + 2) = Some ?a"
    using deref_at [of h "?xs @ ?ys" 2] by simp
  have b: "deref ((h @ ?xs) @ ?ys) (length h + 5) = Some ?b"
    using deref_at [of h "?xs @ ?ys" 5] by simp
  have "concat_call (length h + 2) (length h + 5) ((h @ ?xs) @ ?ys) =
      Inr (length h + 6, ((h @ ?xs) @ ?ys) @ [ColFrame f])"
    using assms(2) unfolding concat_call_def a b summarize_column_nulls_def
    by (simp add: alloc_def)
  then show ?thesis
    unfolding summarize_column_nulls_run_def c1 then_call_Inr c2 by simp
qed

lemma summarize_row_nulls_run_eq:
  assumes "deref h df = Some (Frame d)" and "row_nulls d = Inr f"
  shows "summarize_row_nulls_run df h =
     Inr (length h + 8,
          h @ [BoolFrame (isnull d),
               RowSeries (reduce_axis1 sum_bool (isnull d)),
               RowSeries (rename (reduce_axis1 sum_bool (isnull d)) ''columns_missing''),
               BoolFrame (isnull d),
               RowSeries (reduce_axis1 mean_bool (isnull d)),
               RowSeries (rename (reduce_axis1 mean_bool (isnull d)) ''percent_missing''),
               RowFrame f, CountSeries (value_counts f),
               CountSeries (sort_index (value_counts f))])"
proof -
  let ?a = "RowSeries (rename (reduce_axis1 sum_bool (isnull d)) ''columns_missing'')"
  let ?b = "RowSeries (rename (reduce_axis1 mean_bool (isnull d)) ''percent_missing'')"
  let ?xs = "[BoolFrame (isnull d), RowSeries (reduce_axis1 sum_bool (isnull d)), ?a]"
  let ?ys = "[BoolFrame (isnull d), RowSeries (reduce_axis1 mean_bool (isnull d)), ?b]"
  let ?h2 = "(h @ ?xs) @ ?ys"
  from assms(1) have r: "df < length h" by (rule deref_Some_less)
  have d1: "deref (h @ ?xs) df = Some (Frame d)"
    using r assms(1) by simp
  have c1: "then_call (then_call (isnull_call df h) (reduce_call sum_bool 1))
                  (rename_call ''columns_missing'') = Inr (length h + 2, h @ ?xs)"
    by (rule row_chain [OF assms(1)])
  have c2: "then_call (then_call (isnull_call df (h @ ?xs)) (reduce_call mean_bool 1))
                  (rename_call ''percent_missing'') = Inr (length h + 5, ?h2)"
    using row_chain [OF d1, of mean_bool "''percent_missing''"] by simp
  have a: "deref ?h2 (length h + 2) = Some ?a"
    using deref_at [of h "?xs @ ?ys" 2] by simp
  have b: "deref ?h2 (length h + 5) = Some ?b"
    using deref_at [of h "?xs @ ?ys" 5] by simp
  have 1: "concat_call (length h + 2) (length h + 5) ?h2 =
      Inr (length h + 6, ?h2 @ [RowFrame f])"
    using assms(2) unfolding concat_call_def a b row_nulls_def
    by (simp add: alloc_def)
  have 2: "value_counts_call (length h + 6) (?h2 @ [RowFrame f]) =
      Inr (length h + 7, (?h2 @ [RowFrame f]) @ [CountSeries (value_counts f)])"
    using deref_at [of h "?xs @ ?ys @ [RowFrame f]" 6]
    by (simp add: value_counts_call_def alloc_def)
  have 3: "sort_index_call (length h + 7) ((?h2 @ [RowFrame f]) @ [CountSeries (value_counts f)]) =
      Inr (length h + 8, ((?h2 @ [RowFrame f]) @ [CountSeries (value_counts f)]) @
             [CountSeries (sort_index (value_counts f))])"
    using deref_at [of h "?xs @ ?ys @ [RowFrame f, CountSeries (value_counts f)]" 7]
    by (simp add: sort_index_call_def alloc_def)
  show ?thesis
    unfolding summarize_row_nulls_run_def c1 then_call_Inr c2 1 2 3 by simp
qed

lemma unchanged_append: "unchanged h (h @ xs)"
  by (simp add: unchanged_def)

lemma unchanged_deref: "unchanged h h' \<Longrightarrow> deref h r = Some obj \<Longrightarrow> deref h' r = Some obj"
  by (metis unchanged_def append_take_drop_id deref_Some_less deref_append)

lemma column_run_once:
  fixes h :: "('k, 'a) store"
  assumes "deref h df = Some (Frame d)" and "summarize_column_nulls d = Inr f"
  shows "\<exists>r h'. summarize_column_nulls_run df h = Inr (r, h') \<and> unchanged h h' \<and>
           deref h' r = Some (ColFrame f)"
proof -
  let ?xs = "[BoolFrame (isnull d),
               ColSeries (reduce_axis0 sum_bool (isnull d)),
               ColSeries (rename (reduce_axis0 sum_bool (isnull d)) ''rows_missing''),
               BoolFrame (isnull d),
               ColSeries (reduce_axis0 mean_bool (isnull d)),
               ColSeries (rename (reduce_axis0 mean_bool (isnull d)) ''percent_missing''),
               ColFrame f] :: ('k, 'a) store"
  have "summarize_column_nulls_run df h = Inr (length h + 6, h @ ?xs)"
    by (rule summarize_column_nulls_run_eq [OF assms])
  moreover have "deref (h @ ?xs) (length h + 6) = Some (ColFrame f)"
    using deref_at [of h ?xs 6] by simp
  ultimately show ?thesis using unchanged_append by blast
qed

lemma row_run_once:
  fixes h :: "('k, 'a) store"
  assumes "deref h df = Some (Frame d)" and "row_nulls d = Inr f"
  shows "\<exists>r h'. summarize_row_nulls_run df h = Inr (r, h') \<and> unchanged h h' \<and>
           deref h' r = Some (CountSeries (sort_index (value_counts f)))"
proof -
  let ?xs = "[BoolFrame (isnull d),
               RowSeries (reduce_axis1 sum_bool (isnull d)),
               RowSeries (rename (reduce_axis1 sum_bool (isnull d)) ''columns_missing''),
               BoolFrame (isnull d),
               RowSeries (reduce_axis1 mean_bool (isnull d)),
               RowSeries (rename (reduce_axis1 mean_bool (isnull d)) ''percent_missing''),
               RowFrame f, CountSeries (value_counts f),
               CountSeries (sort_index (value_counts f))] :: ('k, 'a) store"
  have "summarize_row_nulls_run df h = Inr (length h + 8, h @ ?xs)"
    by (rule summarize_row_nulls_run_eq [OF assms])
  moreover have "deref (h @ ?xs) (length h + 8) = Some (CountSeries (sort_index (value_counts f)))"
    using deref_at [of h ?xs 8] by simp
  ultimately show ?thesis using unchanged_append by blast
qed

text \<open>
  Claim C9. With the dataset in a store of objects, a call of either summarizer returns
  normally, leaves every object that was in the store as it was (the dataset among
  them) and returns a reference to a new object holding the summary; a second call on
  the same dataset returns an object with the same content.
\<close>

theorem summarizers_leave_input_unchanged:
  fixes h :: "('k, 'a) store"
  assumes "deref h df = Some (Frame d)"
  shows "(\<exists>f r1 h1 r2 h2.
            summarize_column_nulls d = Inr f \<and>
            summarize_column_nulls_run df h = Inr (r1, h1) \<and> unchanged h h1 \<and>
            deref h1 df = Some (Frame d) \<and> deref h1 r1 = Some (ColFrame f) \<and>
            summarize_column_nulls_run df h1 = Inr (r2, h2) \<and> unchanged h1 h2 \<and>
            deref h2 df = Some (Frame d) \<and> deref h2 r2 = Some (ColFrame f)) \<and>
         (\<exists>s r1 h1 r2 h2.
            summarize_row_nulls d = Inr s \<and>
            summarize_row_nulls_run df h = Inr (r1, h1) \<and> unchanged h h1 \<and>
            deref h1 df = Some (Frame d) \<and> deref h1 r1 = Some (CountSeries s) \<and>
            summarize_row_nulls_run df h1 = Inr (r2, h2) \<and> unchanged h1 h2 \<and>
            deref h2 df = Some (Frame d) \<and> deref h2 r2 = Some (CountSeries s))"
proof
  obtain f where f: "summarize_column_nulls d = Inr f"
    using summarizers_return by blast
  obtain r1 h1 where 1: "summarize_column_nulls_run df h = Inr (r1, h1)" "unchanged h h1"
      "deref h1 r1 = Some (ColFrame f)"
    using column_run_once [OF assms f] by blast
  have d1: "deref h1 df = Some (Frame d)"
    by (rule unchanged_deref [OF 1(2) assms])
  obtain r2 h2 where 2: "summarize_column_nulls_run df h1 = Inr (r2, h2)" "unchanged h1 h2"
      "deref h2 r2 = Some (ColFrame f)"
    using column_run_once [OF d1 f] by blast
  have d2: "deref h2 df = Some (Frame d)"
    by (rule unchanged_deref [OF 2(2) d1])
  show "\<exists>f r1 h1 r2 h2.
            summarize_column_nulls d = Inr f \<and>
            summarize_column_nulls_run df h = Inr (r1, h1) \<and> unchanged h h1 \<and>
            deref h1 df = Some (Frame d) \<and> deref h1 r1 = Some (ColFrame f) \<and>
            summarize_column_nulls_run df h1 = Inr (r2, h2) \<and> unchanged h1 h2 \<and>
            deref h2 df = Some (Frame d) \<and> deref h2 r2 = Some (ColFrame f)"
    using f 1 d1 2 d2 by blast
next
  obtain g where g: "row_nulls d = Inr g"
    using row_nulls_eq by blast
  then have s: "summarize_row_nulls d = Inr (sort_index (value_counts g))"
    by (simp add: summarize_row_nulls_def)
  let ?s = "sort_index (value_counts g)"
  obtain r1 h1 where 1: "summarize_row_nulls_run df h = Inr (r1, h1)" "unchanged h h1"
      "deref h1 r1 = Some (CountSeries ?s)"
    using row_run_once [OF assms g] by blast
  have d1: "deref h1 df = Some (Frame d)"
    by (rule unchanged_deref [OF 1(2) assms])
  obtain r2 h2 where 2: "summarize_row_nulls_run df h1 = Inr (r2, h2)" "unchanged h1 h2"
      "deref h2 r2 = Some (CountSeries ?s)"
    using row_run_once [OF d1 g] by blast
  have d2: "deref h2 df = Some (Frame d)"
    by (rule unchanged_deref [OF 2(2) d1])
  show "\<exists>s r1 h1 r2 h2.
            summarize_row_nulls d = Inr s \<and>
            summarize_row_nulls_run df h = Inr (r1, h1) \<and> unchanged h h1 \<and>
            deref h1 df = Some (Frame d) \<and> deref h1 r1 = Some (CountSeries s) \<and>
            summarize_row_nulls_run df h1 = Inr (r2, h2) \<and> unchanged h1 h2 \<and>
            deref h2 df = Some (Frame d) \<and> deref h2 r2 = Some (CountSeries s)"
    using s 1 d1 2 d2 by blast
qed

theorem summarizers_leave_input_unchanged_witness:
  "deref [Frame df_ab] 0 = Some (Frame df_ab) \<and>
   (\<exists>f r1 h1 r2 h2.
      summarize_column_nulls df_ab = Inr f \<and>
      summarize_column_nulls_run 0 [Frame df_ab] = Inr (r1, h1) \<and>
      deref h1 0 = Some (Frame df_ab) \<and> deref h1 r1 = Some (ColFrame f) \<and>
      summarize_column_nulls_run 0 h1 = Inr (r2, h2) \<and>
      deref h2 0 = Some (Frame df_ab) \<and> deref h2 r2 = Some (ColFrame f)) \<and>
   (\<exists>s r1 h1 r2 h2.
      summarize_row_nulls df_ab = Inr s \<and>
      summarize_row_nulls_run 0 [Frame df_ab] = Inr (r1, h1) \<and>
      deref h1 0 = Some (Frame df_ab) \<and> deref h1 r1 = Some (CountSeries s) \<and>
      summarize_row_nulls_run 0 h1 = Inr (r2, h2) \<and>
      deref h2 0 = Some (Frame df_ab) \<and> deref h2 r2 = Some (CountSeries s))"
proof -
  have d: "deref [Frame df_ab] 0 = Some (Frame df_ab)"
    by (simp add: deref_def)
  show ?thesis
    using summarizers_leave_input_unchanged [OF d] d by blast
qed

end
